theory Spec2Isabelle
  imports Main
begin

section \<open>Payload values\<close>

text \<open>
  The parsers read the value that the transport hands back, a tree built by JSON.parse, and
  build plain JavaScript objects from it. Both are modelled by one datatype. An object is
  the association list of its own keys, each key occurring once. \<open>JUndefined\<close> is
  what reading a missing property yields; it never occurs inside a payload.

  Conventions of the model:
  \<^item> a number is an integer (the parsers never compute with a payload number other than
    a length), kept exactly at every size, where a JavaScript number rounds from \<open>2^53\<close>
    on;
  \<^item> a string is the list of the bytes of its UTF-8 encoding, so equality, prefix tests
    and the ASCII patterns of the source are exact, and the length of a string is the length
    JavaScript reports whenever the string is ASCII (of any other string the model counts
    the bytes, JavaScript the UTF-16 units);
  \<^item> none of the property names read by the source is a built-in member of arrays,
    strings, numbers or booleans other than \<open>length\<close>, so reading one of them from
    such a value yields undefined;
  \<^item> a payload holds no function, so calling a method on a value that does not inherit
    the method raises a TypeError;
  \<^item> white space, where a string is read as a number, is ASCII white space.
\<close>

datatype json =
    JUndefined
  | JNull
  | JBool bool
  | JNum int
  | JStr string
  | JArr "json list"
  | JObj "(string \<times> json) list"

datatype error = TypeError | TransportError | Error string

fun truthy :: "json \<Rightarrow> bool" where
  "truthy JUndefined = False"
| "truthy JNull = False"
| "truthy (JBool b) = b"
| "truthy (JNum n) = (n \<noteq> 0)"
| "truthy (JStr s) = (s \<noteq> [])"
| "truthy (JArr xs) = True"
| "truthy (JObj kvs) = True"

fun nullish :: "json \<Rightarrow> bool" where
  "nullish JUndefined = True"
| "nullish JNull = True"
| "nullish v = False"

text \<open>\<open>a || b\<close> for an operand \<open>b\<close> that cannot raise.\<close>

definition js_or :: "json \<Rightarrow> json \<Rightarrow> json" where
  "js_or a b = (if truthy a then a else b)"

subsection \<open>Decimal numerals\<close>

definition digit_char :: "nat \<Rightarrow> char" where
  "digit_char d = char_of (48 + d)"

function show_nat :: "nat \<Rightarrow> string" where
  "show_nat n = (if n < 10 then [digit_char n] else show_nat (n div 10) @ [digit_char (n mod 10)])"
  by pat_completeness auto
termination
  by (relation "measure (\<lambda>n. n)") auto

definition show_int :: "int \<Rightarrow> string" where
  "show_int i = (if i < 0 then CHR ''-'' # show_nat (nat (- i)) else show_nat (nat i))"

subsection \<open>Reading properties\<close>

text \<open>\<open>v?.k\<close>: undefined on null and undefined, the property otherwise.\<close>

fun opt :: "string \<Rightarrow> json \<Rightarrow> json" where
  "opt k (JObj kvs) = (case map_of kvs k of None \<Rightarrow> JUndefined | Some v \<Rightarrow> v)"
| "opt k (JArr xs) = (if k = ''length'' then JNum (int (length xs)) else JUndefined)"
| "opt k (JStr s) = (if k = ''length'' then JNum (int (length s)) else JUndefined)"
| "opt k v = JUndefined"

text \<open>\<open>v.k\<close>: a TypeError on null and undefined.\<close>

definition dot :: "string \<Rightarrow> json \<Rightarrow> error + json" where
  "dot k v = (if nullish v then Inl TypeError else Inr (opt k v))"

text \<open>\<open>v?.[i]\<close> for an index \<open>i\<close>: an element of an array, a one-character string of a
  string, the property named by the numeral of an object.\<close>

fun opt_at :: "nat \<Rightarrow> json \<Rightarrow> json" where
  "opt_at i (JArr xs) = (if i < length xs then xs ! i else JUndefined)"
| "opt_at i (JStr s) = (if i < length s then JStr [s ! i] else JUndefined)"
| "opt_at i (JObj kvs) = opt (show_nat i) (JObj kvs)"
| "opt_at i v = JUndefined"

text \<open>A chain of optional reads, \<open>v?.a?.[0]?.b\<close>, is a path followed from \<open>v\<close>.\<close>

datatype step = K string | I nat

fun step_of :: "json \<Rightarrow> step \<Rightarrow> json" where
  "step_of v (K k) = opt k v"
| "step_of v (I i) = opt_at i v"

definition path :: "step list \<Rightarrow> json \<Rightarrow> json" where
  "path ps v = foldl step_of v ps"

subsection \<open>Coercions\<close>

fun join_with :: "string \<Rightarrow> string list \<Rightarrow> string" where
  "join_with sep [] = []"
| "join_with sep [x] = x"
| "join_with sep (x # y # zs) = x @ sep @ join_with sep (y # zs)"

text \<open>ToString. A number is printed in decimal (JavaScript switches to the exponent form
  from \<open>10^21\<close> on); an array joins its elements with commas, null and undefined
  elements printing as the empty string.\<close>

fun to_string :: "json \<Rightarrow> string" where
  "to_string JUndefined = ''undefined''"
| "to_string JNull = ''null''"
| "to_string (JBool b) = (if b then ''true'' else ''false'')"
| "to_string (JNum n) = show_int n"
| "to_string (JStr s) = s"
| "to_string (JArr xs) = join_with '','' (map (\<lambda>x. if nullish x then [] else to_string x) xs)"
| "to_string (JObj kvs) = ''[object Object]''"

definition is_digit :: "char \<Rightarrow> bool" where
  "is_digit c = (48 \<le> (of_char c :: nat) \<and> (of_char c :: nat) \<le> 57)"

definition is_space :: "char \<Rightarrow> bool" where
  "is_space c = ((of_char c :: nat) \<in> {9, 10, 11, 12, 13, 32})"

definition digits_value :: "string \<Rightarrow> nat" where
  "digits_value ds = foldl (\<lambda>a c. 10 * a + ((of_char c :: nat) - 48)) 0 ds"

text \<open>ToNumber, with \<open>None\<close> for NaN. A string is read as a decimal integer literal
  between optional white space; a literal with a fraction, an exponent, a radix prefix or
  \<open>Infinity\<close> lies outside the integers of the model and is read as NaN.\<close>

definition string_to_number :: "string \<Rightarrow> int option" where
  "string_to_number s =
     (let t = rev (dropWhile is_space (rev (dropWhile is_space s)))
      in case t of
           [] \<Rightarrow> Some 0
         | c # r \<Rightarrow>
             if (c = CHR ''-'' \<or> c = CHR ''+'') \<and> r \<noteq> [] \<and> list_all is_digit r
             then Some ((if c = CHR ''-'' then - 1 else 1) * int (digits_value r))
             else if list_all is_digit t then Some (int (digits_value t))
             else None)"

fun to_number :: "json \<Rightarrow> int option" where
  "to_number JUndefined = None"
| "to_number JNull = Some 0"
| "to_number (JBool b) = Some (if b then 1 else 0)"
| "to_number (JNum n) = Some n"
| "to_number (JStr s) = string_to_number s"
| "to_number (JArr xs) = string_to_number (to_string (JArr xs))"
| "to_number (JObj kvs) = None"

text \<open>\<open>v > n\<close> for a number \<open>n\<close>.\<close>

definition js_gt :: "json \<Rightarrow> int \<Rightarrow> bool" where
  "js_gt v n = (case to_number v of None \<Rightarrow> False | Some m \<Rightarrow> m > n)"

text \<open>\<open>v[v.length - 1]\<close> for a \<open>v\<close> that is neither null nor undefined: the key is the
  numeral of the number \<open>v.length - 1\<close>.\<close>

definition last_of :: "json \<Rightarrow> json" where
  "last_of v =
     (case to_number (opt ''length'' v) of
        None \<Rightarrow> (case v of JObj kvs \<Rightarrow> opt ''NaN'' v | _ \<Rightarrow> JUndefined)
      | Some n \<Rightarrow>
          if n \<ge> 1 then opt_at (nat (n - 1)) v
          else (case v of JObj kvs \<Rightarrow> opt (show_int (n - 1)) v | _ \<Rightarrow> JUndefined))"

text \<open>\<open>parseInt(v)\<close>: the integer that the longest numeric prefix of \<open>ToString v\<close> denotes,
  after white space and a sign; a prefix \<open>0x\<close> selects radix 16. \<open>None\<close> is NaN.\<close>

definition is_hex_digit :: "char \<Rightarrow> bool" where
  "is_hex_digit c =
     (is_digit c \<or> (65 \<le> (of_char c :: nat) \<and> (of_char c :: nat) \<le> 70)
        \<or> (97 \<le> (of_char c :: nat) \<and> (of_char c :: nat) \<le> 102))"

definition hex_value :: "string \<Rightarrow> nat" where
  "hex_value ds =
     foldl (\<lambda>a c. 16 * a +
        (if is_digit c then (of_char c :: nat) - 48
         else if (of_char c :: nat) \<le> 70 then (of_char c :: nat) - 55
         else (of_char c :: nat) - 87)) 0 ds"

definition parse_magnitude :: "string \<Rightarrow> nat option" where
  "parse_magnitude t =
     (if take 2 t = ''0x'' \<or> take 2 t = ''0X''
      then (let ds = takeWhile is_hex_digit (drop 2 t)
            in if ds = [] then None else Some (hex_value ds))
      else (let ds = takeWhile is_digit t
            in if ds = [] then None else Some (digits_value ds)))"

definition parseInt :: "json \<Rightarrow> int option" where
  "parseInt v =
     (let t = dropWhile is_space (to_string v)
      in case t of
           [] \<Rightarrow> None
         | c # r \<Rightarrow>
             if c = CHR ''-'' then map_option (\<lambda>m. - int m) (parse_magnitude r)
             else if c = CHR ''+'' then map_option int (parse_magnitude r)
             else map_option int (parse_magnitude t))"

text \<open>\<open>parseInt(v) || null\<close>.\<close>

definition parseInt_or_null :: "json \<Rightarrow> json" where
  "parseInt_or_null v =
     (case parseInt v of None \<Rightarrow> JNull | Some n \<Rightarrow> if n = 0 then JNull else JNum n)"

subsection \<open>Exceptions and array methods\<close>

definition ebind :: "error + 'a \<Rightarrow> ('a \<Rightarrow> error + 'b) \<Rightarrow> error + 'b" where
  "ebind m f = (case m of Inl e \<Rightarrow> Inl e | Inr v \<Rightarrow> f v)"

text \<open>\<open>map\<close>, \<open>filter\<close>, \<open>find\<close> and \<open>some\<close> with a callback that may raise. \<open>find\<close> and
  \<open>some\<close> stop at the first hit and never call the callback on what follows it.\<close>

fun emap :: "('a \<Rightarrow> error + 'b) \<Rightarrow> 'a list \<Rightarrow> error + 'b list" where
  "emap f [] = Inr []"
| "emap f (x # xs) = ebind (f x) (\<lambda>y. ebind (emap f xs) (\<lambda>ys. Inr (y # ys)))"

fun efilter :: "('a \<Rightarrow> error + bool) \<Rightarrow> 'a list \<Rightarrow> error + 'a list" where
  "efilter p [] = Inr []"
| "efilter p (x # xs) =
     ebind (p x) (\<lambda>b. ebind (efilter p xs) (\<lambda>ys. Inr (if b then x # ys else ys)))"

fun efind :: "(json \<Rightarrow> error + bool) \<Rightarrow> json list \<Rightarrow> error + json" where
  "efind p [] = Inr JUndefined"
| "efind p (x # xs) = ebind (p x) (\<lambda>b. if b then Inr x else efind p xs)"

fun esome :: "('a \<Rightarrow> error + bool) \<Rightarrow> 'a list \<Rightarrow> error + bool" where
  "esome p [] = Inr False"
| "esome p (x # xs) = ebind (p x) (\<lambda>b. if b then Inr True else esome p xs)"

text \<open>A loop over a list that threads a state and may raise (\<open>forEach\<close>, \<open>for ... of\<close>).\<close>

fun efold :: "('a \<Rightarrow> 's \<Rightarrow> error + 's) \<Rightarrow> 'a list \<Rightarrow> 's \<Rightarrow> error + 's" where
  "efold f [] s = Inr s"
| "efold f (x # xs) s = ebind (f x s) (efold f xs)"

text \<open>\<open>flatMap\<close> flattens one level: an array returned by the callback is spliced in, any
  other value is kept as one element.\<close>

fun flatten1 :: "json \<Rightarrow> json list" where
  "flatten1 (JArr zs) = zs"
| "flatten1 v = [v]"

definition eflat_map :: "(json \<Rightarrow> error + json) \<Rightarrow> json list \<Rightarrow> error + json list" where
  "eflat_map f xs = ebind (emap f xs) (\<lambda>ys. Inr (concat (map flatten1 ys)))"

text \<open>\<open>recv?.method(...)\<close> and \<open>recv.method(...)\<close> for a method that only arrays have
  (\<open>filter\<close>, \<open>map\<close>, \<open>flatMap\<close>, \<open>find\<close>, \<open>some\<close>, \<open>forEach\<close>). The continuation \<open>k\<close> is
  the call together with the rest of the chain, which an optional call skips as a whole.\<close>

definition call :: "json \<Rightarrow> (json list \<Rightarrow> error + 'a) \<Rightarrow> error + 'a" where
  "call recv k = (case recv of JArr xs \<Rightarrow> k xs | _ \<Rightarrow> Inl TypeError)"

definition opt_call :: "json \<Rightarrow> (json list \<Rightarrow> error + json) \<Rightarrow> error + json" where
  "opt_call recv k = (if nullish recv then Inr JUndefined else call recv k)"

text \<open>\<open>v?.slice(-1)\<close>: arrays and strings have \<open>slice\<close>.\<close>

definition slice_last :: "json \<Rightarrow> error + json" where
  "slice_last v =
     (case v of
        JUndefined \<Rightarrow> Inr JUndefined
      | JNull \<Rightarrow> Inr JUndefined
      | JArr xs \<Rightarrow> Inr (JArr (if xs = [] then [] else [last xs]))
      | JStr s \<Rightarrow> Inr (JStr (if s = [] then [] else [last s]))
      | _ \<Rightarrow> Inl TypeError)"

text \<open>The truth value of \<open>v?.startsWith(p)\<close>: only strings have \<open>startsWith\<close>.\<close>

definition starts_with :: "string \<Rightarrow> json \<Rightarrow> error + bool" where
  "starts_with p v =
     (case v of
        JUndefined \<Rightarrow> Inr False
      | JNull \<Rightarrow> Inr False
      | JStr s \<Rightarrow> Inr (take (length p) s = p)
      | _ \<Rightarrow> Inl TypeError)"

text \<open>\<open>v?.replace(/^VL/, '')\<close>.\<close>

definition replace_VL :: "json \<Rightarrow> error + json" where
  "replace_VL v =
     (case v of
        JUndefined \<Rightarrow> Inr JUndefined
      | JNull \<Rightarrow> Inr JUndefined
      | JStr s \<Rightarrow> Inr (JStr (if take 2 s = ''VL'' then drop 2 s else s))
      | _ \<Rightarrow> Inl TypeError)"

text \<open>The pattern \<open>/^\d+:\d+(:\d+)?$/\<close>: two or three non-empty groups of ASCII digits
  separated by single colons, and nothing else.\<close>

definition matches_duration :: "string \<Rightarrow> bool" where
  "matches_duration s =
     (let d1 = takeWhile is_digit s; r1 = dropWhile is_digit s
      in d1 \<noteq> [] \<and>
         (case r1 of
            [] \<Rightarrow> False
          | c1 # t1 \<Rightarrow>
              c1 = CHR '':'' \<and>
              (let d2 = takeWhile is_digit t1; r2 = dropWhile is_digit t1
               in d2 \<noteq> [] \<and>
                  (case r2 of
                     [] \<Rightarrow> True
                   | c2 # t2 \<Rightarrow> c2 = CHR '':'' \<and> t2 \<noteq> [] \<and> list_all is_digit t2))))"

text \<open>The truth value of \<open>v?.match(/^\d+:\d+(:\d+)?$/)\<close>.\<close>

definition match_duration :: "json \<Rightarrow> error + bool" where
  "match_duration v =
     (case v of
        JUndefined \<Rightarrow> Inr False
      | JNull \<Rightarrow> Inr False
      | JStr s \<Rightarrow> Inr (matches_duration s)
      | _ \<Rightarrow> Inl TypeError)"

section \<open>Response parsers\<close>

subsection \<open>Utility helpers\<close>

definition oddElements :: "json \<Rightarrow> error + json list" where
  "oddElements arr =
     (if \<not> truthy arr then Inr []
      else call arr (\<lambda>xs. Inr (map snd (filter (\<lambda>(i, x). i mod 2 = 0) (enumerate 0 xs)))))"

definition getThumbnailUrl :: "json \<Rightarrow> json" where
  "getThumbnailUrl thumbnailRenderer =
     (let thumbnails = path [K ''thumbnail'', K ''thumbnails''] thumbnailRenderer
      in if \<not> truthy thumbnails \<or> \<not> truthy (opt ''length'' thumbnails) then JNull
         else js_or (opt ''url'' (last_of thumbnails)) JNull)"

definition getContinuation :: "json \<Rightarrow> json" where
  "getContinuation continuations =
     (if \<not> truthy continuations \<or> \<not> truthy (opt ''length'' continuations) then JNull
      else js_or (path [I 0, K ''nextContinuationData'', K ''continuation''] continuations) JNull)"

text \<open>The callback \<open>(c) => c.continuationItemRenderer\<close>, as a truth value.\<close>

definition is_continuation_item :: "json \<Rightarrow> error + bool" where
  "is_continuation_item c = ebind (dot ''continuationItemRenderer'' c) (\<lambda>v. Inr (truthy v))"

definition not_continuation_item :: "json \<Rightarrow> error + bool" where
  "not_continuation_item c = ebind (dot ''continuationItemRenderer'' c) (\<lambda>v. Inr (\<not> truthy v))"

definition getItems :: "json \<Rightarrow> error + json list" where
  "getItems contents =
     (if \<not> truthy contents then Inr []
      else call contents (efilter not_continuation_item))"

definition continuation_token :: "json \<Rightarrow> json" where
  "continuation_token contItem =
     js_or (path [K ''continuationItemRenderer'', K ''continuationEndpoint'',
                  K ''continuationCommand'', K ''token''] contItem) JNull"

definition getItemsContinuation :: "json \<Rightarrow> error + json" where
  "getItemsContinuation contents =
     (if \<not> truthy contents then Inr JNull
      else call contents (\<lambda>cs.
             ebind (efind is_continuation_item cs) (\<lambda>contItem. Inr (continuation_token contItem))))"

subsection \<open>Pieces shared by the item parsers\<close>

text \<open>\<open>badges?.some((b) => b.musicInlineBadgeRenderer?.icon?.iconType ===
  'MUSIC_EXPLICIT_BADGE') || false\<close>.\<close>

definition explicit_badge :: "json \<Rightarrow> error + json" where
  "explicit_badge badges =
     ebind (opt_call badges (\<lambda>bs.
              ebind (esome (\<lambda>b. ebind (dot ''musicInlineBadgeRenderer'' b) (\<lambda>m.
                              Inr (path [K ''icon'', K ''iconType''] m = JStr ''MUSIC_EXPLICIT_BADGE'')))
                       bs)
                (\<lambda>r. Inr (JBool r))))
       (\<lambda>v. Inr (js_or v (JBool False)))"

definition run_browseId :: "json \<Rightarrow> json" where
  "run_browseId r = path [K ''navigationEndpoint'', K ''browseEndpoint'', K ''browseId''] r"

text \<open>The callback \<open>(r) => r.navigationEndpoint?.browseEndpoint?.browseId?.startsWith(p)\<close>.\<close>

definition run_starts_with :: "string \<Rightarrow> json \<Rightarrow> error + bool" where
  "run_starts_with p r = (if nullish r then Inl TypeError else starts_with p (run_browseId r))"

text \<open>The callback \<open>(r) => ({ name: r.text, id: r.navigationEndpoint?.browseEndpoint?.browseId })\<close>.\<close>

definition run_artist :: "json \<Rightarrow> error + json" where
  "run_artist r =
     ebind (dot ''text'' r) (\<lambda>t. Inr (JObj [(''name'', t), (''id'', run_browseId r)]))"

definition flex_text :: "nat \<Rightarrow> json \<Rightarrow> json" where
  "flex_text i flexColumns =
     path [I i, K ''musicResponsiveListItemFlexColumnRenderer'', K ''text''] flexColumns"

definition overlay_play_endpoint :: "json \<Rightarrow> json" where
  "overlay_play_endpoint renderer =
     path [K ''overlay'', K ''musicItemThumbnailOverlayRenderer'', K ''content'',
           K ''musicPlayButtonRenderer'', K ''playNavigationEndpoint''] renderer"

text \<open>The duration of a song row: the text of the first fixed column, else the text of the
  last run of the second column when it matches the duration pattern, else null.\<close>

definition fixed_column_text :: "json \<Rightarrow> json" where
  "fixed_column_text renderer =
     path [K ''fixedColumns'', I 0, K ''musicResponsiveListItemFixedColumnRenderer'',
           K ''text'', K ''runs'', I 0, K ''text''] renderer"

definition last_run_text :: "json \<Rightarrow> json" where
  "last_run_text secondCol =
     (let runs = opt ''runs'' secondCol
      in if nullish runs then JUndefined else opt ''text'' (last_of runs))"

definition song_duration :: "json \<Rightarrow> json \<Rightarrow> error + json" where
  "song_duration renderer secondCol =
     (if truthy (fixed_column_text renderer) then Inr (fixed_column_text renderer)
      else ebind (match_duration (last_run_text secondCol)) (\<lambda>m.
             Inr (if m then last_run_text secondCol else JNull)))"

text \<open>The separators \<open>' \<bullet> '\<close> (the bullet is U+2022) and \<open>' & '\<close> of a byline.\<close>

definition bullet_sep :: string where
  "bullet_sep = [CHR '' '', CHR 0xE2, CHR 0x80, CHR 0xA2, CHR '' '']"

subsection \<open>parseMusicResponsiveListItemRenderer\<close>

text \<open>\<open>getThumbnailUrl(renderer.thumbnail?.musicThumbnailRenderer) ||
  renderer.thumbnail?.musicThumbnailRenderer?.thumbnail?.thumbnails?.slice(-1)?.[0]?.url\<close>.\<close>

definition responsive_thumbnail :: "json \<Rightarrow> error + json" where
  "responsive_thumbnail renderer =
     (let tr = path [K ''thumbnail'', K ''musicThumbnailRenderer''] renderer
      in if truthy (getThumbnailUrl tr) then Inr (getThumbnailUrl tr)
         else ebind (slice_last (path [K ''thumbnail'', K ''thumbnails''] tr)) (\<lambda>l.
                Inr (path [I 0, K ''url''] l)))"

definition responsive_artist :: "json \<Rightarrow> json \<Rightarrow> json \<Rightarrow> json \<Rightarrow> json" where
  "responsive_artist browseId title thumbnail secondCol =
     JObj [(''type'', JStr ''artist''), (''id'', browseId), (''title'', title),
           (''thumbnail'', thumbnail),
           (''subscribers'', path [K ''runs'', I 0, K ''text''] secondCol)]"

definition responsive_album ::
  "json \<Rightarrow> json \<Rightarrow> json \<Rightarrow> json \<Rightarrow> json \<Rightarrow> json \<Rightarrow> error + json" where
  "responsive_album renderer browseId title thumbnail explicit secondCol =
     (let playlistId = path [K ''watchPlaylistEndpoint'', K ''playlistId'']
                         (overlay_play_endpoint renderer)
      in ebind (ebind (opt_call (opt ''runs'' secondCol) (\<lambda>rs.
                         ebind (efilter (\<lambda>r. ebind (dot ''navigationEndpoint'' r)
                                               (\<lambda>n. Inr (truthy n))) rs) (\<lambda>fs.
                         ebind (emap run_artist fs) (\<lambda>as. Inr (JArr as)))))
                  (\<lambda>v. Inr (js_or v (JArr [])))) (\<lambda>artists.
         ebind (slice_last (opt ''runs'' secondCol)) (\<lambda>l.
         Inr (JObj [(''type'', JStr ''album''), (''browseId'', browseId),
                    (''playlistId'', playlistId), (''title'', title), (''artists'', artists),
                    (''year'', parseInt_or_null (path [I 0, K ''text''] l)),
                    (''thumbnail'', thumbnail), (''explicit'', explicit)]))))"

definition responsive_playlist :: "json \<Rightarrow> json \<Rightarrow> json \<Rightarrow> json \<Rightarrow> error + json" where
  "responsive_playlist browseId title thumbnail secondCol =
     ebind (replace_VL browseId) (\<lambda>playlistId.
       let r0 = path [K ''runs'', I 0] secondCol
       in Inr (JObj [(''type'', JStr ''playlist''), (''id'', playlistId),
                     (''browseId'', browseId), (''title'', title),
                     (''author'',
                        if truthy r0
                        then JObj [(''name'', opt ''text'' r0), (''id'', run_browseId r0)]
                        else JNull),
                     (''thumbnail'', thumbnail)]))"

text \<open>The artists of a song row: the runs that link to a channel; when there is none,
  the first run whose text is not a separator.\<close>

definition not_separator :: "json \<Rightarrow> error + bool" where
  "not_separator r =
     ebind (dot ''text'' r) (\<lambda>t.
       Inr (truthy t \<and> t \<noteq> JStr bullet_sep \<and> t \<noteq> JStr '' & ''))"

definition basic_artist :: "json \<Rightarrow> error + json" where
  "basic_artist r =
     ebind (dot ''text'' r) (\<lambda>t.
       Inr (JObj [(''name'', t), (''id'', js_or (run_browseId r) JNull)]))"

definition responsive_song_artists :: "json \<Rightarrow> error + json list" where
  "responsive_song_artists secondCol =
     ebind (ebind (opt_call (opt ''runs'' secondCol) (\<lambda>rs.
                     ebind (efilter (run_starts_with ''UC'') rs) (\<lambda>fs.
                     ebind (emap run_artist fs) (\<lambda>as. Inr (JArr as)))))
              (\<lambda>v. Inr (case v of JArr as \<Rightarrow> as | _ \<Rightarrow> []))) (\<lambda>artists.
       if artists = [] \<and> truthy (path [K ''runs'', K ''length''] secondCol)
       then ebind (call (opt ''runs'' secondCol) (efilter not_separator)) (\<lambda>filtered.
              ebind (emap basic_artist (take 1 filtered)) (\<lambda>pushed. Inr (artists @ pushed)))
       else Inr artists)"

definition responsive_song_album :: "json \<Rightarrow> error + json" where
  "responsive_song_album secondCol =
     ebind (opt_call (opt ''runs'' secondCol) (efind (run_starts_with ''MPREb''))) (\<lambda>found.
       Inr (if truthy found
            then JObj [(''name'', opt ''text'' found), (''id'', run_browseId found)]
            else JNull))"

definition responsive_song ::
  "json \<Rightarrow> json \<Rightarrow> json \<Rightarrow> json \<Rightarrow> json \<Rightarrow> json \<Rightarrow> json \<Rightarrow> error + json" where
  "responsive_song renderer videoId title thumbnail explicit musicVideoType secondCol =
     ebind (responsive_song_artists secondCol) (\<lambda>artists.
     ebind (responsive_song_album secondCol) (\<lambda>album.
     ebind (song_duration renderer secondCol) (\<lambda>duration.
       Inr (JObj [(''type'', JStr ''song''), (''id'', videoId), (''title'', title),
                  (''artists'', JArr artists), (''thumbnail'', thumbnail),
                  (''explicit'', explicit), (''musicVideoType'', musicVideoType),
                  (''album'', album), (''duration'', duration)]))))"

definition responsive_pageType :: "json \<Rightarrow> json" where
  "responsive_pageType renderer =
     path [K ''navigationEndpoint'', K ''browseEndpoint'',
           K ''browseEndpointContextSupportedConfigs'', K ''browseEndpointContextMusicConfig'',
           K ''pageType''] renderer"

definition responsive_videoId :: "json \<Rightarrow> json" where
  "responsive_videoId renderer =
     js_or (path [K ''playlistItemData'', K ''videoId''] renderer)
           (path [K ''watchEndpoint'', K ''videoId''] (overlay_play_endpoint renderer))"

text \<open>The chain of \<open>if\<close> statements that decides the kind of the item.\<close>

definition responsive_dispatch ::
  "json \<Rightarrow> json \<Rightarrow> json \<Rightarrow> json \<Rightarrow> json \<Rightarrow> json \<Rightarrow> json \<Rightarrow> json \<Rightarrow> json
     \<Rightarrow> error + json" where
  "responsive_dispatch renderer pageType browseId videoId title thumbnail explicit
     musicVideoType secondCol =
     ebind (if pageType = JStr ''MUSIC_PAGE_TYPE_ARTIST'' then Inr True
            else starts_with ''UC'' browseId) (\<lambda>isArtist.
       if isArtist then Inr (responsive_artist browseId title thumbnail secondCol)
       else if pageType = JStr ''MUSIC_PAGE_TYPE_ALBUM''
       then responsive_album renderer browseId title thumbnail explicit secondCol
       else if pageType = JStr ''MUSIC_PAGE_TYPE_PLAYLIST''
       then responsive_playlist browseId title thumbnail secondCol
       else if truthy videoId \<or> truthy title
       then responsive_song renderer videoId title thumbnail explicit musicVideoType secondCol
       else Inr JNull)"

text \<open>The body of the \<open>try\<close> block, for a truthy renderer.\<close>

definition responsive_try :: "json \<Rightarrow> error + json" where
  "responsive_try renderer =
     (let flexColumns = js_or (opt ''flexColumns'' renderer) (JArr []);
          firstCol = flex_text 0 flexColumns;
          secondCol = flex_text 1 flexColumns;
          title = path [K ''runs'', I 0, K ''text''] firstCol;
          videoId = responsive_videoId renderer;
          browseId = run_browseId renderer
      in ebind (responsive_thumbnail renderer) (\<lambda>thumbnail.
         ebind (explicit_badge (opt ''badges'' renderer)) (\<lambda>explicit.
           let pageType = responsive_pageType renderer;
               musicVideoType =
                 path [K ''watchEndpoint'', K ''watchEndpointMusicSupportedConfigs'',
                       K ''watchEndpointMusicConfig'', K ''musicVideoType'']
                   (overlay_play_endpoint renderer)
           in responsive_dispatch renderer pageType browseId videoId title thumbnail explicit
                musicVideoType secondCol)))"

text \<open>The parser: a falsy renderer gives null, and whatever the \<open>try\<close> block raises is
  caught and gives null.\<close>

definition parseMusicResponsiveListItemRenderer :: "json \<Rightarrow> error + json" where
  "parseMusicResponsiveListItemRenderer renderer =
     (if \<not> truthy renderer then Inr JNull
      else case responsive_try renderer of Inl err \<Rightarrow> Inr JNull | Inr item \<Rightarrow> Inr item)"

subsection \<open>parseMusicTwoRowItemRenderer\<close>

definition tworow_album ::
  "json \<Rightarrow> json \<Rightarrow> json \<Rightarrow> json \<Rightarrow> json \<Rightarrow> json \<Rightarrow> error + json" where
  "tworow_album renderer browseId title subtitle thumbnail explicit =
     (let playlistId =
            path [K ''thumbnailOverlay'', K ''musicItemThumbnailOverlayRenderer'', K ''content'',
                  K ''musicPlayButtonRenderer'', K ''playNavigationEndpoint'',
                  K ''watchPlaylistEndpoint'', K ''playlistId''] renderer
      in ebind (oddElements subtitle) (\<lambda>odd.
         ebind (emap run_artist (drop 1 odd)) (\<lambda>as.
         ebind (slice_last subtitle) (\<lambda>l.
         Inr (JObj [(''type'', JStr ''album''), (''browseId'', browseId),
                    (''playlistId'', playlistId), (''title'', title),
                    (''artists'', JArr (filter (\<lambda>a. truthy (opt ''id'' a)) as)),
                    (''year'', parseInt_or_null (path [I 0, K ''text''] l)),
                    (''thumbnail'', thumbnail), (''explicit'', explicit)])))))"

definition tworow_song ::
  "json \<Rightarrow> json \<Rightarrow> json \<Rightarrow> json \<Rightarrow> json \<Rightarrow> json \<Rightarrow> error + json" where
  "tworow_song videoId title subtitle thumbnail explicit musicVideoType =
     ebind (ebind (opt_call subtitle (\<lambda>rs.
                     ebind (efilter (\<lambda>r. if nullish r then Inl TypeError
                                          else Inr (truthy (run_browseId r))) rs) (\<lambda>fs.
                     ebind (emap run_artist fs) (\<lambda>as. Inr (JArr as)))))
              (\<lambda>v. Inr (js_or v (JArr [])))) (\<lambda>artists.
       Inr (JObj [(''type'', JStr ''song''), (''id'', videoId), (''title'', title),
                  (''artists'', artists), (''thumbnail'', thumbnail),
                  (''explicit'', explicit), (''musicVideoType'', musicVideoType)]))"

definition tworow_artist :: "json \<Rightarrow> json \<Rightarrow> json \<Rightarrow> json \<Rightarrow> json" where
  "tworow_artist browseId title subtitle thumbnail =
     JObj [(''type'', JStr ''artist''), (''id'', browseId), (''title'', title),
           (''thumbnail'', thumbnail), (''subscribers'', path [I 0, K ''text''] subtitle)]"

definition tworow_playlist :: "json \<Rightarrow> json \<Rightarrow> json \<Rightarrow> json \<Rightarrow> error + json" where
  "tworow_playlist browseId title subtitle thumbnail =
     ebind (replace_VL browseId) (\<lambda>playlistId.
       let r0 = opt_at 0 subtitle
       in Inr (JObj [(''type'', JStr ''playlist''), (''id'', playlistId),
                     (''browseId'', browseId), (''title'', title),
                     (''author'',
                        if truthy r0
                        then JObj [(''name'', opt ''text'' r0), (''id'', run_browseId r0)]
                        else JNull),
                     (''thumbnail'', thumbnail)]))"

text \<open>\<open>subtitle?.map((r) => r.text).join('')\<close>.\<close>

definition tworow_unknown :: "json \<Rightarrow> json \<Rightarrow> json \<Rightarrow> json \<Rightarrow> json \<Rightarrow> error + json" where
  "tworow_unknown browseId videoId title subtitle thumbnail =
     ebind (opt_call subtitle (\<lambda>rs.
              ebind (emap (dot ''text'') rs) (\<lambda>ts.
                Inr (JStr (concat (map (\<lambda>t. if nullish t then [] else to_string t) ts))))))
       (\<lambda>joined.
          Inr (JObj [(''type'', JStr ''unknown''), (''browseId'', browseId),
                     (''videoId'', videoId), (''title'', title), (''thumbnail'', thumbnail),
                     (''subtitle'', joined)]))"

text \<open>The chain of \<open>if\<close> statements that decides the kind of the item.\<close>

definition tworow_dispatch ::
  "json \<Rightarrow> json \<Rightarrow> json \<Rightarrow> json \<Rightarrow> json \<Rightarrow> json \<Rightarrow> json \<Rightarrow> json \<Rightarrow> error + json" where
  "tworow_dispatch renderer browseId videoId title subtitle thumbnail explicit musicVideoType =
     ebind (starts_with ''MPREb'' browseId) (\<lambda>isAlbum.
       if isAlbum then tworow_album renderer browseId title subtitle thumbnail explicit
       else if truthy videoId
       then tworow_song videoId title subtitle thumbnail explicit musicVideoType
       else ebind (starts_with ''UC'' browseId) (\<lambda>isArtist.
         if isArtist then Inr (tworow_artist browseId title subtitle thumbnail)
         else ebind (starts_with ''VL'' browseId) (\<lambda>isVL.
              ebind (if isVL then Inr True else starts_with ''RDCLAK'' browseId) (\<lambda>isPlaylist.
                if isPlaylist then tworow_playlist browseId title subtitle thumbnail
                else tworow_unknown browseId videoId title subtitle thumbnail))))"

text \<open>The body of the \<open>try\<close> block, for a truthy renderer.\<close>

definition tworow_try :: "json \<Rightarrow> error + json" where
  "tworow_try renderer =
     (let title = path [K ''title'', K ''runs'', I 0, K ''text''] renderer;
          subtitle = path [K ''subtitle'', K ''runs''] renderer;
          thumbnail = getThumbnailUrl (path [K ''thumbnailRenderer'', K ''musicThumbnailRenderer'']
                                         renderer);
          browseId = run_browseId renderer;
          videoId = path [K ''navigationEndpoint'', K ''watchEndpoint'', K ''videoId''] renderer
      in ebind (explicit_badge (opt ''subtitleBadges'' renderer)) (\<lambda>explicit.
           let musicVideoType =
                 path [K ''navigationEndpoint'', K ''watchEndpoint'',
                       K ''watchEndpointMusicSupportedConfigs'', K ''watchEndpointMusicConfig'',
                       K ''musicVideoType''] renderer
           in tworow_dispatch renderer browseId videoId title subtitle thumbnail explicit
                musicVideoType))"

definition parseMusicTwoRowItemRenderer :: "json \<Rightarrow> error + json" where
  "parseMusicTwoRowItemRenderer renderer =
     (if \<not> truthy renderer then Inr JNull
      else case tworow_try renderer of Inl err \<Rightarrow> Inr JNull | Inr item \<Rightarrow> Inr item)"

subsection \<open>parseAlbumSong and parseAlbumSongs\<close>

text \<open>\<open>parseAlbumSong(renderer, album = null)\<close>. It has no \<open>try\<close> block: what it raises
  reaches the caller.\<close>

definition parseAlbumSong :: "json \<Rightarrow> json \<Rightarrow> error + json" where
  "parseAlbumSong renderer album =
     (if \<not> truthy renderer then Inr JNull
      else
        let flexColumns = js_or (opt ''flexColumns'' renderer) (JArr []);
            firstCol = flex_text 0 flexColumns;
            secondCol = flex_text 1 flexColumns;
            title = path [K ''runs'', I 0, K ''text''] firstCol;
            videoId = responsive_videoId renderer
        in if \<not> truthy title \<and> \<not> truthy videoId then Inr JNull
           else
             ebind (opt_call (opt ''runs'' secondCol) (\<lambda>rs.
                      ebind (efilter (\<lambda>r. if nullish r then Inl TypeError
                                           else Inr (truthy (run_browseId r))) rs) (\<lambda>fs.
                      ebind (emap run_artist fs) (\<lambda>as. Inr (JArr as))))) (\<lambda>linked.
             let artists = js_or (js_or linked (opt ''artists'' album)) (JArr []);
                 thumbnail =
                   (if truthy (opt ''thumbnail'' album) then opt ''thumbnail'' album
                    else getThumbnailUrl (path [K ''thumbnail'', K ''musicThumbnailRenderer'']
                                            renderer))
             in ebind (explicit_badge (opt ''badges'' renderer)) (\<lambda>explicit.
                ebind (song_duration renderer secondCol) (\<lambda>duration.
                  Inr (JObj [(''type'', JStr ''song''), (''id'', videoId), (''title'', title),
                             (''artists'', artists), (''thumbnail'', thumbnail),
                             (''explicit'', explicit),
                             (''album'',
                                if truthy album
                                then JObj [(''name'', opt ''title'' album),
                                           (''id'', opt ''browseId'' album)]
                                else JNull),
                             (''duration'', duration)])))))"

definition playlist_shelf :: "json \<Rightarrow> json" where
  "playlist_shelf twoCol =
     path [K ''secondaryContents'', K ''sectionListRenderer'', K ''contents'', I 0,
           K ''musicPlaylistShelfRenderer''] twoCol"

text \<open>The callback \<open>(c) => parse(c.musicResponsiveListItemRenderer)\<close> of a \<open>map\<close>.\<close>

definition on_row :: "(json \<Rightarrow> error + json) \<Rightarrow> json \<Rightarrow> error + json" where
  "on_row parse c = ebind (dot ''musicResponsiveListItemRenderer'' c) parse"

definition parseAlbumSongs :: "json \<Rightarrow> error + (json list \<times> json)" where
  "parseAlbumSongs response =
     ebind (dot ''contents'' response) (\<lambda>cs.
       let shelf = playlist_shelf (opt ''twoColumnBrowseResultsRenderer'' cs);
           contents = opt ''contents'' shelf
       in ebind (getItems contents) (\<lambda>items.
          ebind (emap (on_row (\<lambda>r. parseAlbumSong r JNull)) items) (\<lambda>parsed.
            let songs = filter truthy parsed
            in if truthy (getContinuation (opt ''continuations'' shelf))
               then Inr (songs, getContinuation (opt ''continuations'' shelf))
               else ebind (getItemsContinuation contents) (\<lambda>continuation.
                      Inr (songs, continuation)))))"

subsection \<open>parsePlaylistPage\<close>

text \<open>\<open>x?.thumbnail?.musicThumbnailRenderer?.thumbnail?.thumbnails?.slice(-1)?.[0]?.url\<close>.\<close>

definition last_thumbnail_url :: "json \<Rightarrow> error + json" where
  "last_thumbnail_url x =
     ebind (slice_last (path [K ''thumbnail'', K ''musicThumbnailRenderer'', K ''thumbnail'',
                              K ''thumbnails''] x))
       (\<lambda>l. Inr (path [I 0, K ''url''] l))"

definition playlist_result :: "json \<Rightarrow> json list \<Rightarrow> json \<Rightarrow> json \<Rightarrow> json" where
  "playlist_result playlist songs songsContinuation sectionContinuation =
     JObj [(''playlist'', playlist), (''songs'', JArr songs),
           (''songsContinuation'', songsContinuation),
           (''continuation'', sectionContinuation)]"

text \<open>The playlist built from the header block.\<close>

definition playlist_from_header :: "json \<Rightarrow> json \<Rightarrow> bool \<Rightarrow> error + json" where
  "playlist_from_header playlistId header editable =
     (let r0 = path [K ''straplineTextOne'', K ''runs'', I 0] header
      in ebind (last_thumbnail_url header) (\<lambda>thumbnail.
           Inr (JObj [(''id'', playlistId),
                      (''title'', path [K ''title'', K ''runs'', I 0, K ''text''] header),
                      (''author'',
                         if truthy r0
                         then JObj [(''name'', opt ''text'' r0), (''id'', run_browseId r0)]
                         else JNull),
                      (''songCountText'',
                         path [K ''secondSubtitle'', K ''runs'', I 0, K ''text''] header),
                      (''thumbnail'', thumbnail),
                      (''isEditable'', JBool editable)])))"

text \<open>\<open>firstSong?.flexColumns?.flatMap(col =>
  col.musicResponsiveListItemFlexColumnRenderer?.text?.runs || []) || []\<close>.\<close>

definition all_runs :: "json \<Rightarrow> error + json list" where
  "all_runs firstSong =
     ebind (opt_call (opt ''flexColumns'' firstSong) (\<lambda>cols.
              ebind (eflat_map (\<lambda>col.
                        ebind (dot ''musicResponsiveListItemFlexColumnRenderer'' col) (\<lambda>f.
                          Inr (js_or (path [K ''text'', K ''runs''] f) (JArr []))))
                      cols)
                (\<lambda>rs. Inr (JArr rs))))
       (\<lambda>v. Inr (case v of JArr rs \<Rightarrow> rs | _ \<Rightarrow> []))"

text \<open>The playlist rebuilt from the first entry of the shelf when the header is missing.\<close>

definition playlist_from_first_song ::
  "json \<Rightarrow> json \<Rightarrow> json \<Rightarrow> json list \<Rightarrow> error + json" where
  "playlist_from_first_song response playlistId playlistShelf songs =
     (let firstSong = path [K ''contents'', I 0, K ''musicResponsiveListItemRenderer'']
                        playlistShelf
      in ebind (last_thumbnail_url firstSong) (\<lambda>firstThumbnail.
         ebind (all_runs firstSong) (\<lambda>allRuns.
           let microformat = path [K ''microformat'', K ''microformatDataRenderer''] response
           in ebind (efind (run_starts_with ''MPREb'') allRuns) (\<lambda>albumRun.
              ebind (efind (run_starts_with ''UC'') allRuns) (\<lambda>artistRun.
                let title = js_or (js_or (opt ''title'' microformat) (opt ''text'' albumRun))
                              playlistId
                in Inr (JObj [(''id'', playlistId),
                              (''title'', title),
                              (''author'',
                                 if truthy artistRun
                                 then JObj [(''name'', opt ''text'' artistRun),
                                            (''id'', run_browseId artistRun)]
                                 else JNull),
                              (''songCountText'', JStr (show_nat (length songs) @ '' songs'')),
                              (''thumbnail'', js_or firstThumbnail JNull),
                              (''isEditable'', JBool False)]))))))"

definition parsePlaylistPage :: "json \<Rightarrow> json \<Rightarrow> error + json" where
  "parsePlaylistPage response playlistId =
     ebind (dot ''contents'' response) (\<lambda>cs.
       let twoCol = opt ''twoColumnBrowseResultsRenderer'' cs;
           base = path [K ''tabs'', I 0, K ''tabRenderer'', K ''content'',
                        K ''sectionListRenderer'', K ''contents'', I 0] twoCol;
           header = js_or (opt ''musicResponsiveHeaderRenderer'' base)
                      (path [K ''musicEditablePlaylistDetailHeaderRenderer'', K ''header'',
                             K ''musicResponsiveHeaderRenderer''] base);
           editable = truthy (opt ''musicEditablePlaylistDetailHeaderRenderer'' base);
           playlistShelf = playlist_shelf twoCol
       in ebind (getItems (opt ''contents'' playlistShelf)) (\<lambda>items.
          ebind (emap (on_row parseMusicResponsiveListItemRenderer) items) (\<lambda>parsed.
            let songs = filter truthy parsed
            in ebind (if truthy (getContinuation (opt ''continuations'' playlistShelf))
                      then Inr (getContinuation (opt ''continuations'' playlistShelf))
                      else getItemsContinuation (opt ''contents'' playlistShelf))
                 (\<lambda>songsContinuation.
                 let sectionContinuation =
                       getContinuation (path [K ''secondaryContents'', K ''sectionListRenderer'',
                                              K ''continuations''] twoCol)
                 in if truthy header
                    then ebind (playlist_from_header playlistId header editable) (\<lambda>playlist.
                           Inr (playlist_result playlist songs songsContinuation
                                  sectionContinuation))
                    else if songs \<noteq> [] \<or> truthy playlistShelf
                    then ebind (playlist_from_first_song response playlistId playlistShelf songs)
                           (\<lambda>playlist.
                           Inr (playlist_result playlist songs songsContinuation
                                  sectionContinuation))
                    else Inr JNull))))"

subsection \<open>parsePlaylistPanelVideoRenderer and parseQueue\<close>

text \<open>The callback of the \<open>forEach\<close> over the menu items; the state is the pair
  \<open>(libraryAddToken, libraryRemoveToken)\<close>.\<close>

definition library_tokens_step :: "json \<Rightarrow> json \<times> json \<Rightarrow> error + (json \<times> json)" where
  "library_tokens_step item toks =
     ebind (dot ''toggleMenuServiceItemRenderer'' item) (\<lambda>toggleRenderer.
       if truthy toggleRenderer
       then
         (let icon = path [K ''defaultIcon'', K ''iconType''] toggleRenderer;
              token = path [K ''defaultServiceEndpoint'', K ''feedbackEndpoint'',
                            K ''feedbackToken''] toggleRenderer;
              toks1 = (if icon = JStr ''LIBRARY_ADD'' then (token, snd toks) else toks)
          in Inr (if icon = JStr ''LIBRARY_REMOVE'' \<or> icon = JStr ''LIBRARY_SAVED''
                  then (fst toks1, token) else toks1))
       else Inr toks)"

definition parsePlaylistPanelVideoRenderer :: "json \<Rightarrow> error + json" where
  "parsePlaylistPanelVideoRenderer renderer =
     (if \<not> truthy renderer then Inr JNull
      else
        let title = path [K ''title'', K ''runs'', I 0, K ''text''] renderer;
            videoId = js_or (opt ''videoId'' renderer)
                        (path [K ''navigationEndpoint'', K ''watchEndpoint'', K ''videoId'']
                           renderer)
        in ebind (slice_last (path [K ''thumbnail'', K ''thumbnails''] renderer)) (\<lambda>l.
           let thumbnail = path [I 0, K ''url''] l;
               runs = path [K ''longBylineText'', K ''runs''] renderer
           in ebind (ebind (opt_call runs (\<lambda>rs.
                              ebind (efilter (run_starts_with ''UC'') rs) (\<lambda>fs.
                              ebind (emap run_artist fs) (\<lambda>as. Inr (JArr as)))))
                       (\<lambda>v. Inr (js_or v (JArr [])))) (\<lambda>artists.
              ebind (opt_call runs (efind (run_starts_with ''MPREb''))) (\<lambda>album.
                let musicVideoType =
                      path [K ''navigationEndpoint'', K ''watchEndpoint'',
                            K ''watchEndpointMusicSupportedConfigs'',
                            K ''watchEndpointMusicConfig'', K ''musicVideoType''] renderer;
                    items = path [K ''menu'', K ''menuRenderer'', K ''items''] renderer
                in ebind (if nullish items then Inr (JNull, JNull)
                          else call items (\<lambda>is. efold library_tokens_step is (JNull, JNull)))
                     (\<lambda>toks.
                   ebind (explicit_badge (opt ''badges'' renderer)) (\<lambda>explicit.
                     Inr (JObj [(''type'', JStr ''song''), (''id'', videoId),
                                (''title'', title), (''artists'', artists),
                                (''thumbnail'', thumbnail),
                                (''musicVideoType'', musicVideoType),
                                (''album'',
                                   if truthy album
                                   then JObj [(''name'', opt ''text'' album),
                                              (''id'', run_browseId album)]
                                   else JNull),
                                (''duration'',
                                   js_or (path [K ''lengthText'', K ''runs'', I 0, K ''text'']
                                            renderer) JNull),
                                (''libraryAddToken'', fst toks),
                                (''libraryRemoveToken'', snd toks),
                                (''explicit'', explicit)])))))))"

definition parseQueue :: "json \<Rightarrow> error + json" where
  "parseQueue response =
     ebind (dot ''queueDatas'' response) (\<lambda>queueDatas.
     ebind (opt_call queueDatas (\<lambda>qds.
              ebind (emap (\<lambda>qd. ebind (dot ''content'' qd) (\<lambda>c.
                              parsePlaylistPanelVideoRenderer (opt ''playlistPanelVideoRenderer'' c)))
                       qds)
                (\<lambda>parsed. Inr (JArr (filter truthy parsed)))))
       (\<lambda>v. Inr (js_or v (JArr []))))"

section \<open>The client\<close>

subsection \<open>Transport\<close>

text \<open>
  A request as the transport sees it: the endpoint, the visitor data of the client at the
  moment the request is built (it goes into the context and into a header), the fields of
  the body besides the context, and the query parameters. The transport itself is outside
  the model: it is any function from the requests sent before and the request at hand to a
  payload or a failure (the failure that remains after the retries). The client is the
  visitor data it stores and the list of the requests it has sent; its other fields are
  written by none of the calls modelled here. Calls run one at a time.
\<close>

record request =
  endpoint :: string
  visitor :: json
  body :: "(string \<times> json) list"
  params :: "(string \<times> json) list"

type_synonym transport = "request list \<Rightarrow> request \<Rightarrow> error + json"

record innerTube =
  visitorData :: json
  sent :: "request list"

definition post ::
  "transport \<Rightarrow> innerTube \<Rightarrow> string \<Rightarrow> (string \<times> json) list \<Rightarrow> (string \<times> json) list
     \<Rightarrow> (error + json) \<times> innerTube" where
  "post net it ep bd ps =
     (let r = \<lparr>endpoint = ep, visitor = visitorData it, body = bd, params = ps\<rparr>
      in (net (sent it) r, it\<lparr>sent := sent it @ [r]\<rparr>))"

definition browse ::
  "transport \<Rightarrow> innerTube \<Rightarrow> json \<Rightarrow> json \<Rightarrow> json \<Rightarrow> (error + json) \<times> innerTube" where
  "browse net it browseId prms continuation =
     post net it ''browse''
       [(''browseId'', browseId), (''params'', prms), (''continuation'', continuation)] []"

definition browseWithCtoken ::
  "transport \<Rightarrow> innerTube \<Rightarrow> json \<Rightarrow> (error + json) \<times> innerTube" where
  "browseWithCtoken net it continuation =
     post net it ''browse'' []
       [(''ctoken'', continuation), (''continuation'', continuation), (''type'', JStr ''next'')]"

definition getQueue ::
  "transport \<Rightarrow> innerTube \<Rightarrow> json \<Rightarrow> json \<Rightarrow> (error + json) \<times> innerTube" where
  "getQueue net it videoIds playlistId =
     post net it ''music/get_queue'' [(''videoIds'', videoIds), (''playlistId'', playlistId)] []"

subsection \<open>albumSongs\<close>

definition maxRequests :: nat where
  "maxRequests = 50"

text \<open>\<open>x.continuations?.[0]?.nextContinuationData?.continuation || null\<close>.\<close>

definition next_continuation :: "json \<Rightarrow> json" where
  "next_continuation x =
     js_or (path [K ''continuations'', I 0, K ''nextContinuationData'', K ''continuation''] x)
       JNull"

text \<open>\<open>seenContinuations.has(c)\<close>. A Set compares strings, numbers and booleans by value
  and arrays and objects by identity; a token that is an array or an object comes out of
  the payload parsed last, so it is identical to none of the tokens seen before.\<close>

fun by_value :: "json \<Rightarrow> bool" where
  "by_value (JArr xs) = False"
| "by_value (JObj kvs) = False"
| "by_value v = True"

definition seen_has :: "json list \<Rightarrow> json \<Rightarrow> bool" where
  "seen_has seen c = (by_value c \<and> c \<in> set seen)"

text \<open>The \<open>forEach\<close> callback of the loop: parse the row and push the song, if any.\<close>

definition push_song :: "json \<Rightarrow> json list \<Rightarrow> error + json list" where
  "push_song item songs =
     ebind (on_row parseMusicResponsiveListItemRenderer item) (\<lambda>song.
       Inr (if truthy song then songs @ [song] else songs))"

text \<open>What the loop does with the payload of one resume request: the songs so far with
  those of the page pushed, and the next token.\<close>

definition albumSongs_page :: "json \<Rightarrow> json list \<Rightarrow> error + (json list \<times> json)" where
  "albumSongs_page response songs =
     ebind (dot ''onResponseReceivedActions'' response) (\<lambda>actions.
       let contItems = path [I 0, K ''appendContinuationItemsAction'', K ''continuationItems'']
                         actions
       in ebind (if truthy contItems then call contItems (\<lambda>items. efold push_song items songs)
                 else Inr songs) (\<lambda>songs'.
            Inr (songs',
                 next_continuation
                   (path [K ''continuationContents'', K ''musicPlaylistShelfContinuation'']
                      response))))"

function albumSongs_loop ::
  "transport \<Rightarrow> innerTube \<Rightarrow> json list \<Rightarrow> json \<Rightarrow> json list \<Rightarrow> nat
     \<Rightarrow> (error + json list) \<times> innerTube" where
  "albumSongs_loop net it songs continuation seen requestCount =
     (if truthy continuation \<and> requestCount < maxRequests
      then if seen_has seen continuation then (Inr songs, it)
           else (case browse net it JNull JNull continuation of
                   (Inl e, it') \<Rightarrow> (Inl e, it')
                 | (Inr response, it') \<Rightarrow>
                     (case albumSongs_page response songs of
                        Inl e \<Rightarrow> (Inl e, it')
                      | Inr (songs', continuation') \<Rightarrow>
                          albumSongs_loop net it' songs' continuation' (continuation # seen)
                            (Suc requestCount)))
      else (Inr songs, it))"
  by pat_completeness auto
termination
  by (relation "measure (\<lambda>(net, it, songs, continuation, seen, requestCount).
                           maxRequests - requestCount)") auto

definition albumSongs ::
  "transport \<Rightarrow> innerTube \<Rightarrow> json \<Rightarrow> (error + json list) \<times> innerTube" where
  "albumSongs net it playlistId =
     (case browse net it (JStr (''VL'' @ to_string playlistId)) JNull JNull of
        (Inl e, it') \<Rightarrow> (Inl e, it')
      | (Inr response, it') \<Rightarrow>
          (case parseAlbumSongs response of
             Inl e \<Rightarrow> (Inl e, it')
           | Inr (songs, continuation) \<Rightarrow> albumSongs_loop net it' songs continuation [] 0))"

subsection \<open>artistAlbumsContinuation\<close>

text \<open>The callback \<open>(i) => parse(i.musicTwoRowItemRenderer)\<close> of a \<open>map\<close>.\<close>

definition on_tworow :: "json \<Rightarrow> error + json" where
  "on_tworow i = ebind (dot ''musicTwoRowItemRenderer'' i) parseMusicTwoRowItemRenderer"

text \<open>\<open>gc.items?.map(on_tworow).filter(keep) || []\<close>.\<close>

definition grid_items :: "(json \<Rightarrow> bool) \<Rightarrow> json \<Rightarrow> error + json list" where
  "grid_items keep gc =
     ebind (opt_call (opt ''items'' gc) (\<lambda>is.
              ebind (emap on_tworow is) (\<lambda>parsed. Inr (JArr (filter keep parsed)))))
       (\<lambda>v. Inr (case v of JArr xs \<Rightarrow> xs | _ \<Rightarrow> []))"

definition is_album :: "json \<Rightarrow> bool" where
  "is_album i = (truthy i \<and> opt ''type'' i = JStr ''album'')"

text \<open>The body of the \<open>try\<close> block once the payload has arrived.\<close>

definition artistAlbums_page :: "json \<Rightarrow> json \<Rightarrow> error + json" where
  "artistAlbums_page response visitorData_arg =
     ebind (dot ''continuationContents'' response) (\<lambda>cc.
       let gc = opt ''gridContinuation'' cc
       in if \<not> truthy gc
          then Inr (JObj [(''albums'', JArr []), (''continuation'', JNull),
                          (''visitorData'', JNull)])
          else ebind (grid_items is_album gc) (\<lambda>albums.
                 let nextToken = (if albums \<noteq> [] then next_continuation gc else JNull);
                     nextVisitorData =
                       js_or (js_or (path [K ''responseContext'', K ''visitorData''] response)
                                visitorData_arg) JNull
                 in Inr (JObj [(''albums'', JArr albums), (''continuation'', nextToken),
                               (''visitorData'',
                                  if truthy nextToken then nextVisitorData else JNull)])))"

text \<open>The call: the supplied visitor data, when truthy, is stored before the request; the
  \<open>finally\<close> block stores the original value back, whether the \<open>try\<close> block returned or
  raised.\<close>

definition artistAlbumsContinuation ::
  "transport \<Rightarrow> innerTube \<Rightarrow> json \<Rightarrow> json \<Rightarrow> (error + json) \<times> innerTube" where
  "artistAlbumsContinuation net it continuation visitorData_arg =
     (let originalVisitorData = visitorData it;
          it1 = (if truthy visitorData_arg then it\<lparr>visitorData := visitorData_arg\<rparr> else it)
      in case browseWithCtoken net it1 continuation of
           (Inl e, it2) \<Rightarrow> (Inl e, it2\<lparr>visitorData := originalVisitorData\<rparr>)
         | (Inr response, it2) \<Rightarrow>
             (artistAlbums_page response visitorData_arg,
              it2\<lparr>visitorData := originalVisitorData\<rparr>))"

subsection \<open>artistItemsContinuation\<close>

definition items_result :: "json list \<Rightarrow> json \<Rightarrow> json" where
  "items_result items continuation =
     JObj [(''items'', JArr items),
           (''continuation'', if items \<noteq> [] then continuation else JNull)]"

text \<open>\<open>x?.filter((c) => !c.continuationItemRenderer)
  .map((c) => parseMusicResponsiveListItemRenderer(c.musicResponsiveListItemRenderer))
  .filter(Boolean) || []\<close>.\<close>

definition shelf_items :: "json \<Rightarrow> error + json list" where
  "shelf_items contents =
     ebind (opt_call contents (\<lambda>cs.
              ebind (efilter not_continuation_item cs) (\<lambda>rows.
              ebind (emap (on_row parseMusicResponsiveListItemRenderer) rows) (\<lambda>parsed.
                Inr (JArr (filter truthy parsed))))))
       (\<lambda>v. Inr (case v of JArr xs \<Rightarrow> xs | _ \<Rightarrow> []))"

text \<open>The callback of the carousel: a two-row item, else a responsive row, else null.\<close>

definition carousel_item :: "json \<Rightarrow> error + json" where
  "carousel_item c =
     ebind (dot ''musicTwoRowItemRenderer'' c) (\<lambda>t.
       if truthy t then parseMusicTwoRowItemRenderer t
       else if truthy (opt ''musicResponsiveListItemRenderer'' c)
       then parseMusicResponsiveListItemRenderer (opt ''musicResponsiveListItemRenderer'' c)
       else Inr JNull)"

definition carousel_items :: "json \<Rightarrow> error + json list" where
  "carousel_items contents =
     ebind (opt_call contents (\<lambda>cs.
              ebind (emap carousel_item cs) (\<lambda>parsed. Inr (JArr (filter truthy parsed)))))
       (\<lambda>v. Inr (case v of JArr xs \<Rightarrow> xs | _ \<Rightarrow> []))"

text \<open>\<open>parseSectionContent\<close>: the closure over \<open>allItems\<close> and \<open>nextContinuation\<close>, which
  are the state here.\<close>

definition parseSectionContent :: "json \<Rightarrow> json list \<times> json \<Rightarrow> error + (json list \<times> json)" where
  "parseSectionContent section st =
     ebind (dot ''gridRenderer'' section) (\<lambda>grid.
       let shelf = opt ''musicShelfRenderer'' section;
           carousel = opt ''musicCarouselShelfRenderer'' section
       in if truthy grid
          then ebind (grid_items truthy grid) (\<lambda>parsed.
                 Inr (fst st @ parsed,
                      if \<not> truthy (snd st) then next_continuation grid else snd st))
          else if truthy shelf
          then ebind (shelf_items (opt ''contents'' shelf)) (\<lambda>parsed.
                 Inr (fst st @ parsed,
                      if \<not> truthy (snd st) then next_continuation shelf else snd st))
          else if truthy carousel
          then ebind (carousel_items (opt ''contents'' carousel)) (\<lambda>parsed.
                 Inr (fst st @ parsed, snd st))
          else Inr st)"

text \<open>\<open>for (const x of v)\<close>: arrays and strings can be iterated, a string yielding
  strings; anything else raises.\<close>

definition iterate :: "json \<Rightarrow> error + json list" where
  "iterate v =
     (case v of
        JArr xs \<Rightarrow> Inr xs
      | JStr s \<Rightarrow> Inr (map (\<lambda>c. JStr [c]) s)
      | _ \<Rightarrow> Inl TypeError)"

definition section_step :: "json \<Rightarrow> json list \<times> json \<Rightarrow> error + (json list \<times> json)" where
  "section_step section st =
     ebind (dot ''itemSectionRenderer'' section) (\<lambda>isr.
       if truthy isr
       then ebind (iterate (js_or (opt ''contents'' isr) (JArr []))) (\<lambda>inners.
              efold parseSectionContent inners st)
       else parseSectionContent section st)"

definition section_list_result :: "json \<Rightarrow> error + json" where
  "section_list_result slc =
     ebind (iterate (js_or (opt ''contents'' slc) (JArr []))) (\<lambda>sections.
     ebind (efold section_step sections ([], JNull)) (\<lambda>st.
       let nextContinuation = (if \<not> truthy (snd st) then next_continuation slc else snd st)
       in Inr (items_result (fst st) nextContinuation)))"

text \<open>The append-actions fallback.\<close>

definition append_actions_result :: "json \<Rightarrow> error + json" where
  "append_actions_result response =
     (let contItems = path [K ''onResponseReceivedActions'', I 0,
                            K ''appendContinuationItemsAction'', K ''continuationItems'']
                        response
      in ebind (shelf_items contItems) (\<lambda>items.
           if items \<noteq> []
           then ebind (opt_call contItems (efind is_continuation_item)) (\<lambda>contItem.
                  Inr (items_result items (continuation_token contItem)))
           else Inr (items_result items JNull)))"

text \<open>What the call makes of the payload.\<close>

definition artistItems_page :: "json \<Rightarrow> error + json" where
  "artistItems_page response =
     ebind (dot ''continuationContents'' response) (\<lambda>cc.
       if truthy (opt ''gridContinuation'' cc)
       then (let gc = opt ''gridContinuation'' cc
             in ebind (grid_items truthy gc) (\<lambda>items.
                  Inr (items_result items (next_continuation gc))))
       else if truthy (opt ''musicPlaylistShelfContinuation'' cc)
       then (let mpc = opt ''musicPlaylistShelfContinuation'' cc
             in ebind (shelf_items (opt ''contents'' mpc)) (\<lambda>items.
                  Inr (items_result items (next_continuation mpc))))
       else if truthy (opt ''sectionListContinuation'' cc)
       then section_list_result (opt ''sectionListContinuation'' cc)
       else append_actions_result response)"

definition artistItemsContinuation ::
  "transport \<Rightarrow> innerTube \<Rightarrow> json \<Rightarrow> (error + json) \<times> innerTube" where
  "artistItemsContinuation net it continuation =
     (case browseWithCtoken net it continuation of
        (Inl e, it') \<Rightarrow> (Inl e, it')
      | (Inr response, it') \<Rightarrow> (artistItems_page response, it'))"

subsection \<open>queue\<close>

definition MAX_GET_QUEUE_SIZE :: int where
  "MAX_GET_QUEUE_SIZE = 1000"

definition queue ::
  "transport \<Rightarrow> innerTube \<Rightarrow> json \<Rightarrow> json \<Rightarrow> (error + json) \<times> innerTube" where
  "queue net it videoIds playlistId =
     (if truthy videoIds \<and> js_gt (opt ''length'' videoIds) MAX_GET_QUEUE_SIZE
      then (Inl (Error (''Max queue size is '' @ show_int MAX_GET_QUEUE_SIZE)), it)
      else case getQueue net it videoIds playlistId of
             (Inl e, it') \<Rightarrow> (Inl e, it')
           | (Inr response, it') \<Rightarrow> (parseQueue response, it'))"

section \<open>Notions used to state the properties\<close>

text \<open>A value is a string that begins with \<open>p\<close>.\<close>

definition has_prefix :: "string \<Rightarrow> json \<Rightarrow> bool" where
  "has_prefix p v = (case v of JStr s \<Rightarrow> take (length p) s = p | _ \<Rightarrow> False)"





definition tworow_videoId :: "json \<Rightarrow> json" where
  "tworow_videoId renderer =
     path [K ''navigationEndpoint'', K ''watchEndpoint'', K ''videoId''] renderer"


text \<open>The continuation token that a browse request carries in its body.\<close>

definition continuation_of :: "request \<Rightarrow> json" where
  "continuation_of r =
     (case map_of (body r) ''continuation'' of None \<Rightarrow> JUndefined | Some c \<Rightarrow> c)"

text \<open>Every payload that the transport returns carries the token \<open>t\<close>, read as a first
  page and read as a resumed page.\<close>

definition echoes :: "json \<Rightarrow> transport \<Rightarrow> bool" where
  "echoes t net =
     (\<forall>h r response. net h r = Inr response \<longrightarrow>
        (\<forall>songs c. parseAlbumSongs response = Inr (songs, c) \<longrightarrow> c = t)
        \<and> (\<forall>songs songs' c. albumSongs_page response songs = Inr (songs', c) \<longrightarrow> c = t))"

text \<open>A payload that holds one continuation shape only, under the key \<open>k\<close>, and a
  payload that holds the append actions only.\<close>

definition only_shape :: "string \<Rightarrow> json \<Rightarrow> json" where
  "only_shape k v = JObj [(''continuationContents'', JObj [(k, v)])]"

definition only_actions :: "json \<Rightarrow> json" where
  "only_actions v = JObj [(''onResponseReceivedActions'', v)]"

text \<open>The header block of a playlist page, as \<open>parsePlaylistPage\<close> looks it up.\<close>

definition page_header :: "json \<Rightarrow> json" where
  "page_header response =
     (let base = path [K ''contents'', K ''twoColumnBrowseResultsRenderer'', K ''tabs'', I 0,
                       K ''tabRenderer'', K ''content'', K ''sectionListRenderer'',
                       K ''contents'', I 0] response
      in js_or (opt ''musicResponsiveHeaderRenderer'' base)
           (path [K ''musicEditablePlaylistDetailHeaderRenderer'', K ''header'',
                  K ''musicResponsiveHeaderRenderer''] base))"



section \<open>Example payloads and transports\<close>

definition text_run :: "string \<Rightarrow> json" where
  "text_run t = JObj [(''text'', JStr t)]"

definition link_run :: "string \<Rightarrow> string \<Rightarrow> json" where
  "link_run t b =
     JObj [(''text'', JStr t),
           (''navigationEndpoint'', JObj [(''browseEndpoint'', JObj [(''browseId'', JStr b)])])]"

definition flex_col :: "json list \<Rightarrow> json" where
  "flex_col rs =
     JObj [(''musicResponsiveListItemFlexColumnRenderer'',
            JObj [(''text'', JObj [(''runs'', JArr rs)])])]"

definition ex_client :: innerTube where
  "ex_client = \<lparr>visitorData = JStr ''stored'', sent = []\<rparr>"

definition net_empty :: transport where
  "net_empty h r = Inr (JObj [])"

definition net_down :: transport where
  "net_down h r = Inl TransportError"

text \<open>Responsive rows: a song whose byline ends in a duration, one with a fixed duration
  column, one whose byline ends in a year.\<close>

definition ex_song_row :: json where
  "ex_song_row =
     JObj [(''flexColumns'',
            JArr [flex_col [text_run ''Title''],
                  flex_col [link_run ''Artist'' ''UC1'', text_run bullet_sep, text_run ''3:45'']]),
           (''playlistItemData'', JObj [(''videoId'', JStr ''v1'')])]"


definition ex_year_row :: json where
  "ex_year_row =
     JObj [(''flexColumns'',
            JArr [flex_col [text_run ''Title''],
                  flex_col [link_run ''Artist'' ''UC1'', text_run bullet_sep, text_run ''2019'']]),
           (''playlistItemData'', JObj [(''videoId'', JStr ''v3'')])]"

text \<open>Fragments that link to a browse identifier \<open>b\<close>, with or without a track identifier
  \<open>v\<close>, for either parser.\<close>

definition ex_tworow :: "string \<Rightarrow> json" where
  "ex_tworow b =
     JObj [(''title'', JObj [(''runs'', JArr [text_run ''Name''])]),
           (''navigationEndpoint'', JObj [(''browseEndpoint'', JObj [(''browseId'', JStr b)])])]"

definition ex_tworow_track :: "string \<Rightarrow> string \<Rightarrow> json" where
  "ex_tworow_track b v =
     JObj [(''title'', JObj [(''runs'', JArr [text_run ''Name''])]),
           (''navigationEndpoint'',
            JObj [(''browseEndpoint'', JObj [(''browseId'', JStr b)]),
                  (''watchEndpoint'', JObj [(''videoId'', JStr v)])])]"

definition ex_row_link :: "string \<Rightarrow> json" where
  "ex_row_link b =
     JObj [(''flexColumns'', JArr [flex_col [text_run ''Name'']]),
           (''navigationEndpoint'', JObj [(''browseEndpoint'', JObj [(''browseId'', JStr b)])])]"

definition ex_row_link_track :: "string \<Rightarrow> string \<Rightarrow> json" where
  "ex_row_link_track b v =
     JObj [(''flexColumns'', JArr [flex_col [text_run ''Name'']]),
           (''playlistItemData'', JObj [(''videoId'', JStr v)]),
           (''navigationEndpoint'', JObj [(''browseEndpoint'', JObj [(''browseId'', JStr b)])])]"



definition ex_row_bad_badges :: json where
  "ex_row_bad_badges =
     JObj [(''flexColumns'', JArr [flex_col [text_run ''Title'']]),
           (''badges'', JArr [JNull])]"



text \<open>Album pages: a first page with rows and a token; a resumed page with rows and a
  token; a transport whose second page has no rows but the token \<open>B\<close>; a transport that
  answers every request with the same payload and token \<open>T\<close>.\<close>

definition next_data :: "string \<Rightarrow> json" where
  "next_data t = JObj [(''nextContinuationData'', JObj [(''continuation'', JStr t)])]"

definition row_entry :: "json \<Rightarrow> json" where
  "row_entry renderer = JObj [(''musicResponsiveListItemRenderer'', renderer)]"

definition first_page_contents :: "json list \<Rightarrow> string \<Rightarrow> json" where
  "first_page_contents rows t =
     JObj [(''twoColumnBrowseResultsRenderer'',
       JObj [(''secondaryContents'',
         JObj [(''sectionListRenderer'',
           JObj [(''contents'',
             JArr [JObj [(''musicPlaylistShelfRenderer'',
                     JObj [(''contents'', JArr rows),
                           (''continuations'', JArr [next_data t])])]])])])])]"

definition ex_first_page :: "string \<Rightarrow> json" where
  "ex_first_page t = JObj [(''contents'', first_page_contents [row_entry ex_song_row] t)]"

definition ex_resume_page :: "json list \<Rightarrow> string \<Rightarrow> json" where
  "ex_resume_page rows t =
     JObj [(''onResponseReceivedActions'',
            JArr [JObj [(''appendContinuationItemsAction'',
                         JObj [(''continuationItems'', JArr rows)])]]),
           (''continuationContents'',
            JObj [(''musicPlaylistShelfContinuation'',
                   JObj [(''continuations'', JArr [next_data t])])])]"

definition net_zero_items :: transport where
  "net_zero_items h r =
     (if continuation_of r = JStr ''A'' then Inr (ex_resume_page [] ''B'')
      else if continuation_of r = JStr ''B'' then Inr (JObj [])
      else Inr (ex_first_page ''A''))"

definition ex_echo_payload :: json where
  "ex_echo_payload =
     JObj [(''contents'', first_page_contents [row_entry ex_song_row] ''T''),
           (''onResponseReceivedActions'',
            JArr [JObj [(''appendContinuationItemsAction'',
                         JObj [(''continuationItems'', JArr [row_entry ex_year_row])])]]),
           (''continuationContents'',
            JObj [(''musicPlaylistShelfContinuation'',
                   JObj [(''continuations'', JArr [next_data ''T''])])])]"

definition net_echo :: transport where
  "net_echo h r = Inr ex_echo_payload"

text \<open>A resume payload that holds a grid continuation (one album, token \<open>G\<close>) and a
  playlist shelf continuation (one song, token \<open>S\<close>) at once, and its two parts.\<close>

definition ex_grid :: json where
  "ex_grid =
     JObj [(''items'', JArr [JObj [(''musicTwoRowItemRenderer'', ex_tworow ''MPREb_1'')]]),
           (''continuations'', JArr [next_data ''G''])]"

definition ex_shelf :: json where
  "ex_shelf =
     JObj [(''contents'', JArr [row_entry ex_song_row]),
           (''continuations'', JArr [next_data ''S''])]"

definition ex_both_shapes :: json where
  "ex_both_shapes =
     JObj [(''continuationContents'',
            JObj [(''musicPlaylistShelfContinuation'', ex_shelf),
                  (''gridContinuation'', ex_grid)])]"




definition ex_album_page_bad_badges :: json where
  "ex_album_page_bad_badges =
     JObj [(''contents'',
            first_page_contents [row_entry ex_song_row, row_entry ex_row_bad_badges] ''A'')]"

text \<open>A section list whose one section wraps a grid in an item section.\<close>

definition ex_section_list :: json where
  "ex_section_list =
     JObj [(''contents'',
            JArr [JObj [(''itemSectionRenderer'',
                         JObj [(''contents'', JArr [JObj [(''gridRenderer'', ex_grid)]])])]])]"

text \<open>Playlist pages without a header block, over the same two shelf entries, a song row
  that has a thumbnail and an empty row: one whose shelf starts with the song row, one
  whose shelf starts with the empty row.\<close>

definition ex_thumb_row :: json where
  "ex_thumb_row =
     JObj [(''flexColumns'',
            JArr [flex_col [text_run ''Title''],
                  flex_col [link_run ''Artist'' ''UC1'', text_run bullet_sep,
                            link_run ''Album'' ''MPREb_1'']]),
           (''thumbnail'',
            JObj [(''musicThumbnailRenderer'',
                   JObj [(''thumbnail'',
                          JObj [(''thumbnails'',
                                 JArr [JObj [(''url'', JStr ''small'')],
                                       JObj [(''url'', JStr ''large'')]])])])]),
           (''playlistItemData'', JObj [(''videoId'', JStr ''v1'')])]"

definition ex_playlist_page_song_first :: json where
  "ex_playlist_page_song_first =
     JObj [(''contents'', first_page_contents [row_entry ex_thumb_row, row_entry (JObj [])] ''A'')]"

definition ex_playlist_page_empty_first :: json where
  "ex_playlist_page_empty_first =
     JObj [(''contents'', first_page_contents [row_entry (JObj []), row_entry ex_thumb_row] ''A'')]"

section \<open>Properties\<close>

subsection \<open>Evaluation helpers\<close>

lemma ebind_Inr [simp]: "ebind (Inr v) f = f v"
  by (simp add: ebind_def)

lemma ebind_Inl [simp]: "ebind (Inl e) f = Inl e"
  by (simp add: ebind_def)

lemma ebind_eq_Inr: "(ebind m f = Inr v) = (\<exists>a. m = Inr a \<and> f a = Inr v)"
  by (cases m) auto

lemma starts_with_Inr: "starts_with p v = Inr b \<Longrightarrow> b = has_prefix p v"
  by (auto simp: starts_with_def has_prefix_def split: json.splits)

lemma has_prefix_starts_with: "has_prefix p v \<Longrightarrow> starts_with p v = Inr True"
  by (auto simp: starts_with_def has_prefix_def split: json.splits)

lemma UC_not_MPREb:
  assumes "has_prefix ''UC'' b"
  shows "\<not> has_prefix ''MPREb'' b"
proof -
  from assms obtain s where b: "b = JStr s" and s: "take (Suc (Suc 0)) s = ''UC''"
    by (cases b) (simp_all add: has_prefix_def)
  from s obtain c cs where cs: "s = c # cs"
    by (cases s) auto
  with s have "c = CHR ''U''"
    by simp
  with b cs show ?thesis
    by (simp add: has_prefix_def)
qed

subsection \<open>The kind and the duration of an item\<close>

lemma song_duration_val:
  "song_duration r sc = Inr d \<Longrightarrow>
     d = (if truthy (fixed_column_text r) then fixed_column_text r
          else case last_run_text sc of
                 JStr s \<Rightarrow> if matches_duration s then JStr s else JNull
               | _ \<Rightarrow> JNull)"
  by (auto simp: song_duration_def match_duration_def split: if_splits json.splits)

lemma responsive_song_fields:
  "responsive_song r vid t th ex mvt sc = Inr item \<Longrightarrow>
     opt ''type'' item = JStr ''song'' \<and>
     opt ''duration'' item =
       (if truthy (fixed_column_text r) then fixed_column_text r
        else case last_run_text sc of
               JStr s \<Rightarrow> if matches_duration s then JStr s else JNull
             | _ \<Rightarrow> JNull)"
  by (auto simp: responsive_song_def ebind_eq_Inr dest: song_duration_val)

lemma responsive_album_type:
  "responsive_album r b t th ex sc = Inr item \<Longrightarrow> opt ''type'' item = JStr ''album''"
  by (auto simp: responsive_album_def ebind_eq_Inr Let_def)

lemma responsive_playlist_type:
  "responsive_playlist b t th sc = Inr item \<Longrightarrow> opt ''type'' item = JStr ''playlist''"
  by (auto simp: responsive_playlist_def ebind_eq_Inr Let_def)

lemma responsive_artist_fields:
  "opt ''type'' (responsive_artist b t th sc) = JStr ''artist''
   \<and> opt ''id'' (responsive_artist b t th sc) = b"
  by (simp add: responsive_artist_def)

lemma responsive_dispatch_type:
  assumes "responsive_dispatch r pt b v t th ex m sc = Inr item" "item \<noteq> JNull"
  shows "opt ''type'' item = JStr
          (if pt = JStr ''MUSIC_PAGE_TYPE_ARTIST'' \<or> has_prefix ''UC'' b then ''artist''
           else if pt = JStr ''MUSIC_PAGE_TYPE_ALBUM'' then ''album''
           else if pt = JStr ''MUSIC_PAGE_TYPE_PLAYLIST'' then ''playlist''
           else ''song'')"
  using assms
  by (auto simp: responsive_dispatch_def ebind_eq_Inr responsive_artist_fields
           split: if_splits dest!: starts_with_Inr
           dest: responsive_album_type responsive_playlist_type responsive_song_fields)



lemma tworow_album_type:
  "tworow_album r b t st th ex = Inr item \<Longrightarrow> opt ''type'' item = JStr ''album''"
  by (auto simp: tworow_album_def ebind_eq_Inr Let_def)

lemma tworow_song_type:
  "tworow_song v t st th ex m = Inr item \<Longrightarrow> opt ''type'' item = JStr ''song''"
  by (auto simp: tworow_song_def ebind_eq_Inr Let_def)

lemma tworow_playlist_type:
  "tworow_playlist b t st th = Inr item \<Longrightarrow> opt ''type'' item = JStr ''playlist''"
  by (auto simp: tworow_playlist_def ebind_eq_Inr Let_def)

lemma tworow_unknown_type:
  "tworow_unknown b v t st th = Inr item \<Longrightarrow> opt ''type'' item = JStr ''unknown''"
  by (auto simp: tworow_unknown_def ebind_eq_Inr Let_def)

lemma tworow_artist_fields:
  "opt ''type'' (tworow_artist b t st th) = JStr ''artist''
   \<and> opt ''id'' (tworow_artist b t st th) = b"
  by (simp add: tworow_artist_def)

lemma tworow_dispatch_type:
  assumes "tworow_dispatch r b v t st th ex m = Inr item"
  shows "opt ''type'' item = JStr
          (if has_prefix ''MPREb'' b then ''album''
           else if truthy v then ''song''
           else if has_prefix ''UC'' b then ''artist''
           else if has_prefix ''VL'' b \<or> has_prefix ''RDCLAK'' b then ''playlist''
           else ''unknown'')"
  using assms
  by (auto simp: tworow_dispatch_def ebind_eq_Inr tworow_artist_fields
           split: if_splits dest!: starts_with_Inr
           dest: tworow_album_type tworow_song_type tworow_playlist_type tworow_unknown_type)

lemma tworow_try_type:
  assumes "tworow_try r = Inr item"
  shows "opt ''type'' item = JStr
          (if has_prefix ''MPREb'' (run_browseId r) then ''album''
           else if truthy (tworow_videoId r) then ''song''
           else if has_prefix ''UC'' (run_browseId r) then ''artist''
           else if has_prefix ''VL'' (run_browseId r) \<or> has_prefix ''RDCLAK'' (run_browseId r)
           then ''playlist''
           else ''unknown'')"
  using assms unfolding tworow_try_def Let_def ebind_eq_Inr tworow_videoId_def
  by (blast dest: tworow_dispatch_type)


lemma responsive_try_type:
  assumes "responsive_try r = Inr item" "item \<noteq> JNull"
  shows "opt ''type'' item = JStr
          (if responsive_pageType r = JStr ''MUSIC_PAGE_TYPE_ARTIST''
              \<or> has_prefix ''UC'' (run_browseId r) then ''artist''
           else if responsive_pageType r = JStr ''MUSIC_PAGE_TYPE_ALBUM'' then ''album''
           else if responsive_pageType r = JStr ''MUSIC_PAGE_TYPE_PLAYLIST'' then ''playlist''
           else ''song'')"
  using assms unfolding responsive_try_def Let_def ebind_eq_Inr
  by (blast dest: responsive_dispatch_type)




subsection \<open>The duration pattern\<close>








subsection \<open>Fragments that link to a channel\<close>

lemma falsy_run_browseId: "\<not> truthy r \<Longrightarrow> run_browseId r = JUndefined"
  by (cases r) (simp_all add: run_browseId_def path_def)

lemma responsive_dispatch_UC:
  "has_prefix ''UC'' b \<Longrightarrow>
     responsive_dispatch r pt b v t th ex m sc = Inr (responsive_artist b t th sc)"
  by (simp add: responsive_dispatch_def has_prefix_starts_with)

lemma responsive_try_UC:
  assumes "has_prefix ''UC'' (run_browseId r)"
  shows "(\<exists>e. responsive_try r = Inl e)
         \<or> (\<exists>item. responsive_try r = Inr item \<and> opt ''type'' item = JStr ''artist''
                     \<and> opt ''id'' item = run_browseId r)"
proof (cases "responsive_try r")
  case (Inl e)
  then show ?thesis by blast
next
  case (Inr item)
  then have "\<exists>t th sc. item = responsive_artist (run_browseId r) t th sc"
    unfolding responsive_try_def Let_def ebind_eq_Inr
    by (auto simp: responsive_dispatch_UC [OF assms])
  with Inr show ?thesis
    by (auto simp: responsive_artist_fields)
qed

lemma tworow_try_UC:
  assumes "has_prefix ''UC'' (run_browseId r)"
  shows "(\<exists>e. tworow_try r = Inl e)
         \<or> (\<exists>item. tworow_try r = Inr item
               \<and> opt ''type'' item = JStr (if truthy (tworow_videoId r) then ''song'' else ''artist''))"
proof (cases "tworow_try r")
  case (Inl e)
  then show ?thesis by blast
next
  case (Inr item)
  from tworow_try_type [OF Inr] UC_not_MPREb [OF assms] assms Inr show ?thesis
    by simp
qed














subsection \<open>The item parsers never raise\<close>






text \<open>
  The third row parser, \<open>parseAlbumSong\<close>, has no \<open>try\<close> block and is not covered by the
  statement above: on the row with the malformed badge list, which
  \<open>parseMusicResponsiveListItemRenderer\<close> maps to null, it raises, and so does
  \<open>parseAlbumSongs\<close> on an album page that holds this row after a song.
\<close>

lemma parseAlbumSong_unguarded:
  "parseMusicResponsiveListItemRenderer ex_row_bad_badges = Inr JNull
   \<and> parseAlbumSong ex_row_bad_badges JNull = Inl TypeError
   \<and> parseAlbumSongs ex_album_page_bad_badges = Inl TypeError"
  by code_simp

subsection \<open>Fragments that link to a channel, as classified\<close>

text \<open>
  C3, as amended. A fragment whose browse identifier begins with the channel prefix \<open>UC\<close>
  is classified as an artist by \<open>parseMusicResponsiveListItemRenderer\<close>, whether or not a
  track identifier is present, and by \<open>parseMusicTwoRowItemRenderer\<close> when no track
  identifier is present; with a track identifier the two-row parser classifies it as a
  song. Either parser returns null instead when its \<open>try\<close> block raises.
\<close>

theorem artist_prefix_precedence:
  assumes "has_prefix ''UC'' (run_browseId r)"
  shows "((parseMusicResponsiveListItemRenderer r = Inr JNull \<and> (\<exists>e. responsive_try r = Inl e))
          \<or> (\<exists>item. parseMusicResponsiveListItemRenderer r = Inr item
                \<and> opt ''type'' item = JStr ''artist'' \<and> opt ''id'' item = run_browseId r))
       \<and> ((parseMusicTwoRowItemRenderer r = Inr JNull \<and> (\<exists>e. tworow_try r = Inl e))
          \<or> (\<exists>item. parseMusicTwoRowItemRenderer r = Inr item
                \<and> opt ''type'' item
                    = JStr (if truthy (tworow_videoId r) then ''song'' else ''artist'')))"
proof -
  from assms have t: "truthy r"
    using falsy_run_browseId [of r] by (cases "truthy r") (auto simp: has_prefix_def)
  from responsive_try_UC [OF assms] t have 1:
    "(parseMusicResponsiveListItemRenderer r = Inr JNull \<and> (\<exists>e. responsive_try r = Inl e))
          \<or> (\<exists>item. parseMusicResponsiveListItemRenderer r = Inr item
                \<and> opt ''type'' item = JStr ''artist'' \<and> opt ''id'' item = run_browseId r)"
    by (auto simp: parseMusicResponsiveListItemRenderer_def)
  from tworow_try_UC [OF assms] t have 2:
    "(parseMusicTwoRowItemRenderer r = Inr JNull \<and> (\<exists>e. tworow_try r = Inl e))
          \<or> (\<exists>item. parseMusicTwoRowItemRenderer r = Inr item
                \<and> opt ''type'' item
                    = JStr (if truthy (tworow_videoId r) then ''song'' else ''artist''))"
    by (auto simp: parseMusicTwoRowItemRenderer_def)
  from 1 2 show ?thesis by blast
qed

theorem artist_prefix_precedence_witness:
  "has_prefix ''UC'' (run_browseId (ex_row_link_track ''UC1'' ''v1''))
   \<and> responsive_videoId (ex_row_link_track ''UC1'' ''v1'') = JStr ''v1''
   \<and> parseMusicResponsiveListItemRenderer (ex_row_link_track ''UC1'' ''v1'') =
       Inr (JObj [(''type'', JStr ''artist''), (''id'', JStr ''UC1''), (''title'', JStr ''Name''),
                  (''thumbnail'', JUndefined), (''subscribers'', JUndefined)])
   \<and> has_prefix ''UC'' (run_browseId (ex_tworow ''UC1''))
   \<and> parseMusicTwoRowItemRenderer (ex_tworow ''UC1'') =
       Inr (JObj [(''type'', JStr ''artist''), (''id'', JStr ''UC1''), (''title'', JStr ''Name''),
                  (''thumbnail'', JNull), (''subscribers'', JUndefined)])"
proof -
  have h1: "has_prefix ''UC'' (run_browseId (ex_row_link_track ''UC1'' ''v1''))"
    by code_simp
  have h2: "has_prefix ''UC'' (run_browseId (ex_tworow ''UC1''))"
    by code_simp
  have v: "responsive_videoId (ex_row_link_track ''UC1'' ''v1'') = JStr ''v1''"
    by code_simp
  have e1: "parseMusicResponsiveListItemRenderer (ex_row_link_track ''UC1'' ''v1'') =
       Inr (JObj [(''type'', JStr ''artist''), (''id'', JStr ''UC1''), (''title'', JStr ''Name''),
                  (''thumbnail'', JUndefined), (''subscribers'', JUndefined)])"
    by code_simp
  have e2: "parseMusicTwoRowItemRenderer (ex_tworow ''UC1'') =
       Inr (JObj [(''type'', JStr ''artist''), (''id'', JStr ''UC1''), (''title'', JStr ''Name''),
                  (''thumbnail'', JNull), (''subscribers'', JUndefined)])"
    by code_simp
  from artist_prefix_precedence [OF h1] artist_prefix_precedence [OF h2] h1 h2 v e1 e2
  show ?thesis by simp
qed

text \<open>
  C3 as stated fails for the two-row parser: a fragment whose browse identifier begins with
  \<open>UC\<close> and that carries a track identifier is classified as a song.
\<close>

theorem artist_prefix_precedence_counterexample:
  "has_prefix ''UC'' (run_browseId (ex_tworow_track ''UC1'' ''v1''))
   \<and> tworow_videoId (ex_tworow_track ''UC1'' ''v1'') = JStr ''v1''
   \<and> parseMusicTwoRowItemRenderer (ex_tworow_track ''UC1'' ''v1'') =
       Inr (JObj [(''type'', JStr ''song''), (''id'', JStr ''v1''), (''title'', JStr ''Name''),
                  (''artists'', JArr []), (''thumbnail'', JNull), (''explicit'', JBool False),
                  (''musicVideoType'', JUndefined)])"
  by code_simp

subsection \<open>The decision order of the classifiers\<close>

text \<open>
  C2, as amended. Each item parser decides the kind of an item by a fixed chain in which
  the first match wins. \<open>parseMusicTwoRowItemRenderer\<close>: the album prefix \<open>MPREb\<close> of the
  browse identifier, then the presence of a track identifier (song), then the channel
  prefix \<open>UC\<close> (artist), then the playlist prefixes \<open>VL\<close> and \<open>RDCLAK\<close>, else unknown.
  \<open>parseMusicResponsiveListItemRenderer\<close>: the artist page type or the channel prefix
  \<open>UC\<close>, then the album page type, then the playlist page type, and only then a track
  identifier or a title (song); it checks no album prefix and no playlist prefix.
\<close>

theorem classifier_decision_order:
  "(parseMusicTwoRowItemRenderer r = Inr item \<and> item \<noteq> JNull \<longrightarrow>
      opt ''type'' item = JStr
        (if has_prefix ''MPREb'' (run_browseId r) then ''album''
         else if truthy (tworow_videoId r) then ''song''
         else if has_prefix ''UC'' (run_browseId r) then ''artist''
         else if has_prefix ''VL'' (run_browseId r) \<or> has_prefix ''RDCLAK'' (run_browseId r)
         then ''playlist''
         else ''unknown''))
   \<and> (parseMusicResponsiveListItemRenderer r = Inr item' \<and> item' \<noteq> JNull \<longrightarrow>
      opt ''type'' item' = JStr
        (if responsive_pageType r = JStr ''MUSIC_PAGE_TYPE_ARTIST''
            \<or> has_prefix ''UC'' (run_browseId r) then ''artist''
         else if responsive_pageType r = JStr ''MUSIC_PAGE_TYPE_ALBUM'' then ''album''
         else if responsive_pageType r = JStr ''MUSIC_PAGE_TYPE_PLAYLIST'' then ''playlist''
         else ''song''))"
proof -
  have tw: "parseMusicTwoRowItemRenderer r = Inr item \<and> item \<noteq> JNull \<longrightarrow>
              tworow_try r = Inr item"
    by (auto simp: parseMusicTwoRowItemRenderer_def split: if_splits sum.splits)
  have rs: "parseMusicResponsiveListItemRenderer r = Inr item' \<and> item' \<noteq> JNull \<longrightarrow>
              responsive_try r = Inr item'"
    by (auto simp: parseMusicResponsiveListItemRenderer_def split: if_splits sum.splits)
  from tw rs tworow_try_type [of r item] responsive_try_type [of r item']
  show ?thesis by blast
qed

theorem classifier_decision_order_witness:
  "parseMusicTwoRowItemRenderer (ex_tworow ''VL1'') =
     Inr (JObj [(''type'', JStr ''playlist''), (''id'', JStr ''1''), (''browseId'', JStr ''VL1''),
                (''title'', JStr ''Name''), (''author'', JNull), (''thumbnail'', JNull)])
   \<and> has_prefix ''VL'' (run_browseId (ex_tworow ''VL1''))
   \<and> parseMusicResponsiveListItemRenderer (ex_song_row) =
     Inr (JObj [(''type'', JStr ''song''), (''id'', JStr ''v1''), (''title'', JStr ''Title''),
                (''artists'', JArr [JObj [(''name'', JStr ''Artist''), (''id'', JStr ''UC1'')]]),
                (''thumbnail'', JUndefined), (''explicit'', JBool False),
                (''musicVideoType'', JUndefined), (''album'', JNull),
                (''duration'', JStr ''3:45'')])
   \<and> responsive_pageType ex_song_row = JUndefined
   \<and> run_browseId ex_song_row = JUndefined"
proof -
  have e1: "parseMusicTwoRowItemRenderer (ex_tworow ''VL1'') =
     Inr (JObj [(''type'', JStr ''playlist''), (''id'', JStr ''1''), (''browseId'', JStr ''VL1''),
                (''title'', JStr ''Name''), (''author'', JNull), (''thumbnail'', JNull)])"
    by code_simp
  have e2: "parseMusicResponsiveListItemRenderer (ex_song_row) =
     Inr (JObj [(''type'', JStr ''song''), (''id'', JStr ''v1''), (''title'', JStr ''Title''),
                (''artists'', JArr [JObj [(''name'', JStr ''Artist''), (''id'', JStr ''UC1'')]]),
                (''thumbnail'', JUndefined), (''explicit'', JBool False),
                (''musicVideoType'', JUndefined), (''album'', JNull),
                (''duration'', JStr ''3:45'')])"
    by code_simp
  have e3: "has_prefix ''VL'' (run_browseId (ex_tworow ''VL1''))
            \<and> responsive_pageType ex_song_row = JUndefined
            \<and> run_browseId ex_song_row = JUndefined"
    by code_simp
  from classifier_decision_order [of "ex_tworow ''VL1''"] classifier_decision_order [of ex_song_row]
    e1 e2 e3
  show ?thesis by simp
qed

text \<open>
  C2 as stated fails: the two-row parser classifies a fragment with a playlist prefix as a
  song when a track identifier is present (the track identifier is checked before the
  channel and playlist prefixes), and the responsive parser classifies a row whose browse
  identifier has the album prefix as a song (it checks no album prefix).
\<close>

theorem classifier_decision_order_counterexample:
  "has_prefix ''VL'' (run_browseId (ex_tworow_track ''VL1'' ''v1''))
   \<and> parseMusicTwoRowItemRenderer (ex_tworow_track ''VL1'' ''v1'') =
       Inr (JObj [(''type'', JStr ''song''), (''id'', JStr ''v1''), (''title'', JStr ''Name''),
                  (''artists'', JArr []), (''thumbnail'', JNull), (''explicit'', JBool False),
                  (''musicVideoType'', JUndefined)])
   \<and> has_prefix ''MPREb'' (run_browseId (ex_row_link ''MPREb_1''))
   \<and> parseMusicResponsiveListItemRenderer (ex_row_link ''MPREb_1'') =
       Inr (JObj [(''type'', JStr ''song''), (''id'', JUndefined), (''title'', JStr ''Name''),
                  (''artists'', JArr []), (''thumbnail'', JUndefined),
                  (''explicit'', JBool False), (''musicVideoType'', JUndefined),
                  (''album'', JNull), (''duration'', JNull)])"
  by code_simp

subsection \<open>The duration of a song\<close>



subsection \<open>The album songs loop\<close>

lemma browse_sent:
  "browse net it b p c = (x, it') \<Longrightarrow>
     \<exists>r. sent it' = sent it @ [r] \<and> continuation_of r = c \<and> visitorData it' = visitorData it"
  by (auto simp: browse_def post_def Let_def continuation_of_def)

lemma albumSongs_loop_stop:
  "\<not> (truthy c \<and> n < maxRequests \<and> \<not> seen_has seen c) \<Longrightarrow>
     albumSongs_loop net it songs c seen n = (Inr songs, it)"
  by (subst albumSongs_loop.simps) auto

lemma albumSongs_loop_step:
  assumes "truthy c \<and> n < maxRequests \<and> \<not> seen_has seen c"
  shows "albumSongs_loop net it songs c seen n =
           (case browse net it JNull JNull c of
              (Inl e, it') \<Rightarrow> (Inl e, it')
            | (Inr response, it') \<Rightarrow>
                (case albumSongs_page response songs of
                   Inl e \<Rightarrow> (Inl e, it')
                 | Inr (songs', c') \<Rightarrow>
                     albumSongs_loop net it' songs' c' (c # seen) (Suc n)))"
  using assms by (subst albumSongs_loop.simps) simp

lemma albumSongs_loop_sent:
  "\<exists>reqs. sent (snd (albumSongs_loop net it songs c seen n)) = sent it @ reqs
      \<and> length reqs \<le> maxRequests - n
      \<and> distinct (filter by_value (map continuation_of reqs))
      \<and> (\<forall>t\<in>set (map continuation_of reqs). by_value t \<longrightarrow> t \<notin> set seen)"
proof (induction net it songs c seen n rule: albumSongs_loop.induct)
  case (1 net it songs c seen n)
  show ?case
  proof (cases "truthy c \<and> n < maxRequests \<and> \<not> seen_has seen c")
    case False
    then show ?thesis
      by (simp add: albumSongs_loop_stop)
  next
    case True
    obtain x it' where b: "browse net it JNull JNull c = (x, it')"
      by (cases "browse net it JNull JNull c")
    from browse_sent [OF b] obtain r where r: "sent it' = sent it @ [r]" "continuation_of r = c"
      by blast
    from True have fresh: "by_value c \<longrightarrow> c \<notin> set seen"
      by (simp add: seen_has_def)
    from True have room: "1 \<le> maxRequests - n"
      by arith
    have one: "\<exists>reqs. sent it' = sent it @ reqs
        \<and> length reqs \<le> maxRequests - n
        \<and> distinct (filter by_value (map continuation_of reqs))
        \<and> (\<forall>t\<in>set (map continuation_of reqs). by_value t \<longrightarrow> t \<notin> set seen)"
      using r fresh room by (intro exI [of _ "[r]"]) simp
    show ?thesis
    proof (cases x)
      case (Inl e)
      with True b one show ?thesis
        by (simp add: albumSongs_loop_step)
    next
      case (Inr response)
      show ?thesis
      proof (cases "albumSongs_page response songs")
        case (Inl e)
        with True b Inr one show ?thesis
          by (simp add: albumSongs_loop_step)
      next
        case page: (Inr sc)
        obtain songs' c' where sc: "sc = (songs', c')"
          by (cases sc)
        from True have t1: "truthy c \<and> n < maxRequests" and t2: "\<not> seen_has seen c"
          by simp_all
        from "1.IH" [OF t1 t2 b [symmetric] Inr page sc [symmetric]]
        obtain reqs where reqs:
          "sent (snd (albumSongs_loop net it' songs' c' (c # seen) (Suc n))) = sent it' @ reqs"
          "length reqs \<le> maxRequests - Suc n"
          "distinct (filter by_value (map continuation_of reqs))"
          "\<forall>t\<in>set (map continuation_of reqs). by_value t \<longrightarrow> t \<notin> set (c # seen)"
          by blast
        have eq: "albumSongs_loop net it songs c seen n
                    = albumSongs_loop net it' songs' c' (c # seen) (Suc n)"
          using True b Inr page sc by (simp add: albumSongs_loop_step)
        have "sent (snd (albumSongs_loop net it songs c seen n)) = sent it @ (r # reqs)"
          using eq reqs(1) r(1) by simp
        moreover have "length (r # reqs) \<le> maxRequests - n"
          using reqs(2) t1 by (simp, arith)
        moreover have "distinct (filter by_value (map continuation_of (r # reqs)))"
          using reqs(3,4) r(2) by auto
        moreover have "\<forall>t\<in>set (map continuation_of (r # reqs)). by_value t \<longrightarrow> t \<notin> set seen"
          using reqs(4) r(2) fresh by auto
        ultimately show ?thesis by blast
      qed
    qed
  qed
qed

lemma albumSongs_loop_echo:
  assumes "echoes t net" "by_value t"
  shows "length (sent (snd (albumSongs_loop net it songs t seen n))) \<le> length (sent it) + 1"
proof (cases "truthy t \<and> n < maxRequests \<and> \<not> seen_has seen t")
  case False
  then show ?thesis by (simp add: albumSongs_loop_stop)
next
  case True
  obtain x it' where b: "browse net it JNull JNull t = (x, it')"
    by (cases "browse net it JNull JNull t")
  from browse_sent [OF b] obtain r where r: "sent it' = sent it @ [r]"
    by blast
  from b have net: "x = net (sent it) \<lparr>endpoint = ''browse'', visitor = visitorData it,
      body = [(''browseId'', JNull), (''params'', JNull), (''continuation'', t)], params = []\<rparr>"
    by (auto simp: browse_def post_def Let_def)
  show ?thesis
  proof (cases x)
    case (Inl e)
    with True b r show ?thesis by (simp add: albumSongs_loop_step)
  next
    case (Inr response)
    show ?thesis
    proof (cases "albumSongs_page response songs")
      case (Inl e)
      with True b Inr r show ?thesis by (simp add: albumSongs_loop_step)
    next
      case page: (Inr sc)
      obtain songs' c' where sc: "sc = (songs', c')" by (cases sc)
      from assms(1) net Inr page sc have "c' = t"
        unfolding echoes_def by metis
      with assms(2) have "seen_has (t # seen) c'"
        by (simp add: seen_has_def)
      then have "albumSongs_loop net it' songs' c' (t # seen) (Suc n) = (Inr songs', it')"
        by (simp add: albumSongs_loop_stop)
      with True b Inr page sc r show ?thesis
        by (simp add: albumSongs_loop_step)
    qed
  qed
qed

lemma albumSongs_sent:
  "\<exists>reqs. sent (snd (albumSongs net it playlistId)) = sent it @ reqs
      \<and> length reqs \<le> 1 + maxRequests
      \<and> distinct (filter by_value (map continuation_of (tl reqs)))"
proof -
  obtain x it' where b: "browse net it (JStr (''VL'' @ to_string playlistId)) JNull JNull = (x, it')"
    by (cases "browse net it (JStr (''VL'' @ to_string playlistId)) JNull JNull")
  from browse_sent [OF b] obtain r where r: "sent it' = sent it @ [r]"
    by blast
  have one: "\<exists>reqs. sent it' = sent it @ reqs \<and> length reqs \<le> 1 + maxRequests
      \<and> distinct (filter by_value (map continuation_of (tl reqs)))"
    using r by (intro exI [of _ "[r]"]) simp
  show ?thesis
  proof (cases x)
    case (Inl e)
    with b one show ?thesis by (simp add: albumSongs_def)
  next
    case (Inr response)
    show ?thesis
    proof (cases "parseAlbumSongs response")
      case (Inl e)
      with b Inr one show ?thesis by (simp add: albumSongs_def)
    next
      case parsed: (Inr sc)
      obtain songs c where sc: "sc = (songs, c)" by (cases sc)
      from albumSongs_loop_sent [of net it' songs c "[]" 0]
      obtain reqs where reqs:
        "sent (snd (albumSongs_loop net it' songs c [] 0)) = sent it' @ reqs"
        "length reqs \<le> maxRequests"
        "distinct (filter by_value (map continuation_of reqs))"
        by auto
      have "sent (snd (albumSongs net it playlistId)) = sent it @ (r # reqs)"
        using b Inr parsed sc reqs(1) r by (simp add: albumSongs_def)
      with reqs(2,3) show ?thesis
        by (intro exI [of _ "r # reqs"]) simp
    qed
  qed
qed

lemma albumSongs_echo:
  assumes "echoes t net" "by_value t"
  shows "length (sent (snd (albumSongs net it playlistId))) \<le> length (sent it) + 2"
proof -
  obtain x it' where b: "browse net it (JStr (''VL'' @ to_string playlistId)) JNull JNull = (x, it')"
    by (cases "browse net it (JStr (''VL'' @ to_string playlistId)) JNull JNull")
  from browse_sent [OF b] obtain r where r: "sent it' = sent it @ [r]"
    by blast
  from b have net: "x = net (sent it) \<lparr>endpoint = ''browse'', visitor = visitorData it,
      body = [(''browseId'', JStr (''VL'' @ to_string playlistId)), (''params'', JNull),
              (''continuation'', JNull)], params = []\<rparr>"
    by (auto simp: browse_def post_def Let_def)
  show ?thesis
  proof (cases x)
    case (Inl e)
    with b r show ?thesis by (simp add: albumSongs_def)
  next
    case (Inr response)
    show ?thesis
    proof (cases "parseAlbumSongs response")
      case (Inl e)
      with b Inr r show ?thesis by (simp add: albumSongs_def)
    next
      case parsed: (Inr sc)
      obtain songs c where sc: "sc = (songs, c)" by (cases sc)
      from assms(1) net Inr parsed sc have "c = t"
        unfolding echoes_def by metis
      with albumSongs_loop_echo [OF assms, of it' songs "[]" 0] b Inr parsed sc r
      show ?thesis by (simp add: albumSongs_def)
    qed
  qed
qed

lemma net_echo_echoes: "echoes (JStr ''T'') net_echo"
proof -
  have 1: "map_sum id snd (parseAlbumSongs ex_echo_payload) = Inr (JStr ''T'')"
    by code_simp
  have 2: "next_continuation
             (path [K ''continuationContents'', K ''musicPlaylistShelfContinuation'']
                ex_echo_payload) = JStr ''T''"
    by code_simp
  have "\<And>songs c. parseAlbumSongs ex_echo_payload = Inr (songs, c) \<Longrightarrow> c = JStr ''T''"
    using 1 by auto
  moreover
  have "\<And>songs songs' c. albumSongs_page ex_echo_payload songs = Inr (songs', c)
          \<Longrightarrow> c = JStr ''T''"
    using 2 by (auto simp: albumSongs_page_def Let_def ebind_eq_Inr)
  ultimately show ?thesis
    unfolding echoes_def net_echo_def by blast
qed

text \<open>
  C4. \<open>albumSongs\<close> always returns (its loop is a total function, the measure being the
  number of resume requests left). Whatever the transport answers, it sends one first
  request and then at most \<open>maxRequests\<close> = 50 resume requests; the tokens of the resume
  requests that a Set compares by value (strings, numbers, booleans) are pairwise
  distinct, because the loop stops, returning the songs collected so far, as soon as the
  token at hand has been seen; and when every payload echoes the same token, the first
  request is followed by at most one resume request.
\<close>

theorem albumSongs_terminates_within_cap:
  "(\<exists>reqs. sent (snd (albumSongs net it playlistId)) = sent it @ reqs
       \<and> length reqs \<le> 1 + maxRequests
       \<and> distinct (filter by_value (map continuation_of (tl reqs))))
   \<and> maxRequests = 50
   \<and> (seen_has seen c \<longrightarrow> albumSongs_loop net it songs c seen n = (Inr songs, it))
   \<and> (echoes t net \<and> by_value t \<longrightarrow>
        length (sent (snd (albumSongs net it playlistId))) \<le> length (sent it) + 2)"
  using albumSongs_sent [of net it playlistId] albumSongs_echo [of t net it playlistId]
    albumSongs_loop_stop [of c n seen net it songs]
  by (simp add: maxRequests_def)

theorem albumSongs_terminates_within_cap_witness:
  "echoes (JStr ''T'') net_echo \<and> by_value (JStr ''T'')
   \<and> map continuation_of (sent (snd (albumSongs net_echo ex_client (JStr ''PL1''))))
       = [JNull, JStr ''T'']
   \<and> seen_has [JStr ''T''] (JStr ''T'')
   \<and> albumSongs_loop net_echo ex_client [] (JStr ''T'') [JStr ''T''] 1 = (Inr [], ex_client)"
proof -
  have e: "map continuation_of (sent (snd (albumSongs net_echo ex_client (JStr ''PL1''))))
       = [JNull, JStr ''T'']"
    by code_simp
  have s: "seen_has [JStr ''T''] (JStr ''T'')"
    by (simp add: seen_has_def)
  from albumSongs_terminates_within_cap
         [of net_echo ex_client "JStr ''PL1''" "[JStr ''T'']" "JStr ''T''" "[]" 1 "JStr ''T''"]
       net_echo_echoes e s
  show ?thesis by simp
qed

subsection \<open>A resumed album page without items\<close>

text \<open>
  C1 fails on the code: \<open>albumSongs\<close> has no guard on a page that yields no item. With a
  transport whose first page carries the token \<open>A\<close> and whose page for \<open>A\<close> has no items
  but the token \<open>B\<close>, it goes on to request the page for \<open>B\<close>; the sequence is not
  exhausted after the empty page.
\<close>

theorem albumSongs_fetches_after_empty_page:
  "albumSongs_page (ex_resume_page [] ''B'') [] = Inr ([], JStr ''B'')
   \<and> map continuation_of (sent (snd (albumSongs net_zero_items ex_client (JStr ''PL1''))))
       = [JNull, JStr ''A'', JStr ''B'']"
  by code_simp

subsection \<open>The precedence of the continuation shapes\<close>

lemma path_Cons: "path (p # ps) v = path ps (step_of v p)"
  by (simp add: path_def)

lemma path_Nil: "path [] v = v"
  by (simp add: path_def)

lemma ebind_return: "ebind m Inr = m"
  by (cases m) simp_all

lemma append_actions_only:
  "append_actions_result (only_actions (opt ''onResponseReceivedActions'' response))
     = append_actions_result response"
  by (simp add: append_actions_result_def only_actions_def path_Cons)

lemma efold_cong_set:
  "\<forall>x\<in>set xs. \<forall>s. f x s = g x s \<Longrightarrow> efold f xs s = efold g xs s"
proof (induction xs arbitrary: s)
  case Nil
  then show ?case by simp
next
  case (Cons x xs)
  then have "efold f xs = efold g xs" by auto
  with Cons.prems show ?case by simp
qed

lemma section_step_plain:
  assumes "\<not> truthy (opt ''itemSectionRenderer'' i)"
  shows "section_step i st = parseSectionContent i st"
proof (cases "nullish i")
  case True
  then show ?thesis
    by (simp add: section_step_def parseSectionContent_def dot_def)
next
  case False
  with assms show ?thesis
    by (simp add: section_step_def dot_def)
qed

lemma section_list_unwrap:
  assumes "\<forall>i\<in>set inners. \<not> truthy (opt ''itemSectionRenderer'' i)"
  shows "section_list_result
           (JObj [(''contents'',
                   JArr [JObj [(''itemSectionRenderer'', JObj [(''contents'', JArr inners)])]])])
         = section_list_result (JObj [(''contents'', JArr inners)])"
proof -
  from assms have "efold section_step inners ([], JNull)
                     = efold parseSectionContent inners ([], JNull)"
    by (intro efold_cong_set) (simp add: section_step_plain)
  moreover have "efold section_step [] = Inr"
    by (rule ext) simp
  moreover have "next_continuation (JObj [(''contents'', x)]) = JNull" for x
    by (simp add: next_continuation_def path_Cons path_Nil js_or_def)
  ultimately show ?thesis
    by (simp add: section_list_result_def iterate_def js_or_def section_step_def dot_def
          ebind_return cong: if_cong)
qed

text \<open>
  C6, as amended. When resuming a continuation, \<open>artistItemsContinuation\<close> tries the
  continuation shapes in a fixed order, and the first shape present (truthy) determines the
  result, which is what a payload with that shape alone would give: the grid continuation
  first, then the playlist shelf continuation, then the section list continuation, then the
  append actions. In a section list, a section wrapped in an item section is unwrapped by
  one level: wrapping the sections changes nothing.
\<close>

theorem continuation_shape_precedence:
  assumes "dot ''continuationContents'' response = Inr cc"
  shows "(truthy (opt ''gridContinuation'' cc) \<longrightarrow>
            artistItems_page response
              = artistItems_page (only_shape ''gridContinuation'' (opt ''gridContinuation'' cc)))
       \<and> (\<not> truthy (opt ''gridContinuation'' cc)
            \<and> truthy (opt ''musicPlaylistShelfContinuation'' cc) \<longrightarrow>
            artistItems_page response
              = artistItems_page (only_shape ''musicPlaylistShelfContinuation''
                                    (opt ''musicPlaylistShelfContinuation'' cc)))
       \<and> (\<not> truthy (opt ''gridContinuation'' cc)
            \<and> \<not> truthy (opt ''musicPlaylistShelfContinuation'' cc)
            \<and> truthy (opt ''sectionListContinuation'' cc) \<longrightarrow>
            artistItems_page response
              = artistItems_page (only_shape ''sectionListContinuation''
                                    (opt ''sectionListContinuation'' cc)))
       \<and> (\<not> truthy (opt ''gridContinuation'' cc)
            \<and> \<not> truthy (opt ''musicPlaylistShelfContinuation'' cc)
            \<and> \<not> truthy (opt ''sectionListContinuation'' cc) \<longrightarrow>
            artistItems_page response
              = artistItems_page (only_actions (opt ''onResponseReceivedActions'' response)))
       \<and> ((\<forall>i\<in>set inners. \<not> truthy (opt ''itemSectionRenderer'' i)) \<longrightarrow>
            section_list_result
              (JObj [(''contents'',
                      JArr [JObj [(''itemSectionRenderer'',
                                   JObj [(''contents'', JArr inners)])]])])
              = section_list_result (JObj [(''contents'', JArr inners)]))"
proof -
  have g: "truthy (opt ''gridContinuation'' cc) \<longrightarrow>
            artistItems_page response
              = artistItems_page (only_shape ''gridContinuation'' (opt ''gridContinuation'' cc))"
    using assms by (simp add: artistItems_page_def only_shape_def dot_def Let_def)
  have s: "\<not> truthy (opt ''gridContinuation'' cc)
            \<and> truthy (opt ''musicPlaylistShelfContinuation'' cc) \<longrightarrow>
            artistItems_page response
              = artistItems_page (only_shape ''musicPlaylistShelfContinuation''
                                    (opt ''musicPlaylistShelfContinuation'' cc))"
    using assms by (simp add: artistItems_page_def only_shape_def dot_def Let_def)
  have l: "\<not> truthy (opt ''gridContinuation'' cc)
            \<and> \<not> truthy (opt ''musicPlaylistShelfContinuation'' cc)
            \<and> truthy (opt ''sectionListContinuation'' cc) \<longrightarrow>
            artistItems_page response
              = artistItems_page (only_shape ''sectionListContinuation''
                                    (opt ''sectionListContinuation'' cc))"
    using assms by (simp add: artistItems_page_def only_shape_def dot_def Let_def)
  have a: "\<not> truthy (opt ''gridContinuation'' cc)
            \<and> \<not> truthy (opt ''musicPlaylistShelfContinuation'' cc)
            \<and> \<not> truthy (opt ''sectionListContinuation'' cc) \<longrightarrow>
            artistItems_page response
              = artistItems_page (only_actions (opt ''onResponseReceivedActions'' response))"
    using assms append_actions_only [of response]
    by (simp add: artistItems_page_def dot_def Let_def) (simp add: only_actions_def)
  from g s l a section_list_unwrap [of inners] show ?thesis by blast
qed


theorem continuation_shape_precedence_witness:
  "dot ''continuationContents'' ex_both_shapes
     = Inr (JObj [(''musicPlaylistShelfContinuation'', ex_shelf), (''gridContinuation'', ex_grid)])
   \<and> truthy ex_grid \<and> truthy ex_shelf
   \<and> artistItems_page ex_both_shapes = artistItems_page (only_shape ''gridContinuation'' ex_grid)
   \<and> \<not> list_ex (\<lambda>i. truthy (opt ''itemSectionRenderer'' i)) [JObj [(''gridRenderer'', ex_grid)]]
   \<and> section_list_result ex_section_list
       = section_list_result (JObj [(''contents'', JArr [JObj [(''gridRenderer'', ex_grid)]])])"
proof -
  have d: "dot ''continuationContents'' ex_both_shapes
     = Inr (JObj [(''musicPlaylistShelfContinuation'', ex_shelf), (''gridContinuation'', ex_grid)])"
    by (simp add: ex_both_shapes_def dot_def)
  have t: "truthy ex_grid \<and> truthy ex_shelf"
    by (simp add: ex_grid_def ex_shelf_def)
  from continuation_shape_precedence [OF d, of "[JObj [(''gridRenderer'', ex_grid)]]"] d t
  show ?thesis by (simp add: ex_section_list_def)
qed

text \<open>
  C6 as stated fails on the order of the first two shapes: a payload that holds a playlist
  shelf continuation (a song, token \<open>S\<close>) and a grid continuation (an album, token \<open>G\<close>)
  gives the album and \<open>G\<close>, although the shelf alone would give the song and \<open>S\<close>.
\<close>

theorem continuation_shape_precedence_counterexample:
  "artistItems_page ex_both_shapes =
     Inr (JObj [(''items'',
                 JArr [JObj [(''type'', JStr ''album''), (''browseId'', JStr ''MPREb_1''),
                             (''playlistId'', JUndefined), (''title'', JStr ''Name''),
                             (''artists'', JArr []), (''year'', JNull), (''thumbnail'', JNull),
                             (''explicit'', JBool False)]]),
                (''continuation'', JStr ''G'')])
   \<and> artistItems_page (only_shape ''musicPlaylistShelfContinuation'' ex_shelf) =
     Inr (JObj [(''items'',
                 JArr [JObj [(''type'', JStr ''song''), (''id'', JStr ''v1''),
                             (''title'', JStr ''Title''),
                             (''artists'',
                              JArr [JObj [(''name'', JStr ''Artist''), (''id'', JStr ''UC1'')]]),
                             (''thumbnail'', JUndefined), (''explicit'', JBool False),
                             (''musicVideoType'', JUndefined), (''album'', JNull),
                             (''duration'', JStr ''3:45'')]]),
                (''continuation'', JStr ''S'')])"
  by code_simp

subsection \<open>A playlist page without its header\<close>

text \<open>
  C7 fails on the code. \<open>parsePlaylistPage\<close> rebuilds the descriptor from the first entry
  of the shelf, \<open>contents[0]\<close>, whether or not that entry is a song; it does not look at
  the first song of the list it has just parsed. On a page without header whose shelf
  holds an empty row and then a song (byline artist \<open>Artist\<close>, thumbnail \<open>large\<close>), the
  only song of the result carries that artist and that thumbnail, yet the author and the
  thumbnail of the descriptor are null and its title falls back to the playlist
  identifier. With the same two entries in the other order the descriptor has the author,
  the thumbnail and the album title of the song.
\<close>

theorem parsePlaylistPage_fallback_reads_first_entry:
  "page_header ex_playlist_page_empty_first = JUndefined
   \<and> parsePlaylistPage ex_playlist_page_empty_first (JStr ''PL1'') =
       Inr (JObj [(''playlist'',
                   JObj [(''id'', JStr ''PL1''), (''title'', JStr ''PL1''), (''author'', JNull),
                         (''songCountText'', JStr ''1 songs''), (''thumbnail'', JNull),
                         (''isEditable'', JBool False)]),
                  (''songs'',
                   JArr [JObj [(''type'', JStr ''song''), (''id'', JStr ''v1''),
                               (''title'', JStr ''Title''),
                               (''artists'',
                                JArr [JObj [(''name'', JStr ''Artist''), (''id'', JStr ''UC1'')]]),
                               (''thumbnail'', JStr ''large''), (''explicit'', JBool False),
                               (''musicVideoType'', JUndefined),
                               (''album'',
                                JObj [(''name'', JStr ''Album''), (''id'', JStr ''MPREb_1'')]),
                               (''duration'', JNull)]]),
                  (''songsContinuation'', JStr ''A''), (''continuation'', JNull)])
   \<and> page_header ex_playlist_page_song_first = JUndefined
   \<and> parsePlaylistPage ex_playlist_page_song_first (JStr ''PL1'') =
       Inr (JObj [(''playlist'',
                   JObj [(''id'', JStr ''PL1''), (''title'', JStr ''Album''),
                         (''author'', JObj [(''name'', JStr ''Artist''), (''id'', JStr ''UC1'')]),
                         (''songCountText'', JStr ''1 songs''), (''thumbnail'', JStr ''large''),
                         (''isEditable'', JBool False)]),
                  (''songs'',
                   JArr [JObj [(''type'', JStr ''song''), (''id'', JStr ''v1''),
                               (''title'', JStr ''Title''),
                               (''artists'',
                                JArr [JObj [(''name'', JStr ''Artist''), (''id'', JStr ''UC1'')]]),
                               (''thumbnail'', JStr ''large''), (''explicit'', JBool False),
                               (''musicVideoType'', JUndefined),
                               (''album'',
                                JObj [(''name'', JStr ''Album''), (''id'', JStr ''MPREb_1'')]),
                               (''duration'', JNull)]]),
                  (''songsContinuation'', JStr ''A''), (''continuation'', JNull)])"
  by code_simp

text \<open>Read off the first result: the author and the thumbnail of the descriptor, next to
  the name of the first artist and the thumbnail of the first song.\<close>

theorem parsePlaylistPage_fallback_reads_first_entry_witness:
  "(case parsePlaylistPage ex_playlist_page_empty_first (JStr ''PL1'') of
      Inl e \<Rightarrow> []
    | Inr result \<Rightarrow>
        [path [K ''playlist'', K ''author''] result,
         path [K ''playlist'', K ''thumbnail''] result,
         path [K ''songs'', I 0, K ''artists'', I 0, K ''name''] result,
         path [K ''songs'', I 0, K ''thumbnail''] result])
   = [JNull, JNull, JStr ''Artist'', JStr ''large'']"
  using parsePlaylistPage_fallback_reads_first_entry by (simp add: path_def)

subsection \<open>The queue size guard\<close>

lemma show_int_1000: "show_int 1000 = ''1000''"
  by code_simp

text \<open>
  C9. \<open>queue(videoIds, playlistId)\<close> raises its own error and sends nothing exactly when
  \<open>videoIds\<close> is truthy and its length exceeds \<open>MAX_GET_QUEUE_SIZE\<close> = 1000; for an array
  that is when it has more than 1000 elements. In every other case, a null \<open>videoIds\<close>
  included, exactly one request goes to the transport, the queue request carrying
  \<open>videoIds\<close> and \<open>playlistId\<close>.
\<close>

theorem queue_max_size_guard:
  "((fst (queue net it videoIds playlistId) = Inl (Error ''Max queue size is 1000'')
       \<and> sent (snd (queue net it videoIds playlistId)) = sent it)
      = (truthy videoIds \<and> js_gt (opt ''length'' videoIds) MAX_GET_QUEUE_SIZE))
   \<and> ((truthy (JArr xs) \<and> js_gt (opt ''length'' (JArr xs)) MAX_GET_QUEUE_SIZE)
        = (1000 < length xs))
   \<and> \<not> (truthy JNull \<and> js_gt (opt ''length'' JNull) MAX_GET_QUEUE_SIZE)
   \<and> (\<not> (truthy videoIds \<and> js_gt (opt ''length'' videoIds) MAX_GET_QUEUE_SIZE) \<longrightarrow>
        sent (snd (queue net it videoIds playlistId))
          = sent it @ [\<lparr>endpoint = ''music/get_queue'', visitor = visitorData it,
                         body = [(''videoIds'', videoIds), (''playlistId'', playlistId)],
                         params = []\<rparr>])"
proof -
  have guard: "(fst (queue net it videoIds playlistId) = Inl (Error ''Max queue size is 1000'')
                  \<and> sent (snd (queue net it videoIds playlistId)) = sent it)
               = (truthy videoIds \<and> js_gt (opt ''length'' videoIds) MAX_GET_QUEUE_SIZE)"
    by (auto simp: queue_def getQueue_def post_def Let_def MAX_GET_QUEUE_SIZE_def show_int_1000
             split: prod.splits sum.splits)
  have arrays: "(truthy (JArr xs) \<and> js_gt (opt ''length'' (JArr xs)) MAX_GET_QUEUE_SIZE)
                = (1000 < length xs)"
    by (auto simp: js_gt_def MAX_GET_QUEUE_SIZE_def)
  have sends: "\<not> (truthy videoIds \<and> js_gt (opt ''length'' videoIds) MAX_GET_QUEUE_SIZE) \<longrightarrow>
        sent (snd (queue net it videoIds playlistId))
          = sent it @ [\<lparr>endpoint = ''music/get_queue'', visitor = visitorData it,
                         body = [(''videoIds'', videoIds), (''playlistId'', playlistId)],
                         params = []\<rparr>]"
    by (auto simp: queue_def getQueue_def post_def Let_def split: prod.splits sum.splits)
  from guard arrays sends show ?thesis by simp
qed

theorem queue_max_size_guard_witness:
  "fst (queue net_empty ex_client (JArr (replicate 1001 (JStr ''v''))) JNull)
     = Inl (Error ''Max queue size is 1000'')
   \<and> sent (snd (queue net_empty ex_client (JArr (replicate 1001 (JStr ''v''))) JNull)) = []
   \<and> length (sent (snd (queue net_empty ex_client (JArr (replicate 1000 (JStr ''v''))) JNull))) = 1
   \<and> length (sent (snd (queue net_empty ex_client JNull JNull))) = 1"
  using queue_max_size_guard [of net_empty ex_client "JArr (replicate 1001 (JStr ''v''))" JNull
          "replicate 1001 (JStr ''v'')"]
        queue_max_size_guard [of net_empty ex_client "JArr (replicate 1000 (JStr ''v''))" JNull
          "replicate 1000 (JStr ''v'')"]
        queue_max_size_guard [of net_empty ex_client JNull JNull "[]"]
  by (simp add: ex_client_def)

subsection \<open>The visitor data of the client\<close>

text \<open>
  C10. After \<open>artistAlbumsContinuation(continuation, visitorData)\<close>, whether it returned or
  raised, the visitor data stored in the client is what it was before the call, although
  the one request of the call was built with the supplied visitor data (when that is
  truthy).
\<close>

theorem artistAlbumsContinuation_restores_visitorData:
  "visitorData (snd (artistAlbumsContinuation net it continuation vd)) = visitorData it
   \<and> map visitor (sent (snd (artistAlbumsContinuation net it continuation vd)))
       = map visitor (sent it) @ [if truthy vd then vd else visitorData it]"
  by (simp add: artistAlbumsContinuation_def browseWithCtoken_def post_def Let_def
           split: prod.splits sum.splits)

theorem artistAlbumsContinuation_restores_visitorData_witness:
  "visitorData (snd (artistAlbumsContinuation net_empty ex_client (JStr ''t'') (JStr ''given'')))
     = JStr ''stored''
   \<and> map visitor (sent (snd (artistAlbumsContinuation net_empty ex_client (JStr ''t'')
                               (JStr ''given'')))) = [JStr ''given'']
   \<and> visitorData (snd (artistAlbumsContinuation net_down ex_client (JStr ''t'') (JStr ''given'')))
     = JStr ''stored''
   \<and> fst (artistAlbumsContinuation net_down ex_client (JStr ''t'') (JStr ''given''))
     = Inl TransportError"
  using artistAlbumsContinuation_restores_visitorData
          [of net_empty ex_client "JStr ''t''" "JStr ''given''"]
        artistAlbumsContinuation_restores_visitorData
          [of net_down ex_client "JStr ''t''" "JStr ''given''"]
  by (simp add: ex_client_def artistAlbumsContinuation_def browseWithCtoken_def post_def
        net_down_def)

end
